theory Spec2Isabelle
  imports Main "HOL-Library.AList" "HOL-Library.Monad_Syntax"
begin

section \<open>JavaScript strings and regular expressions\<close>

text \<open>
  A JavaScript string is modelled as a HOL \<^typ>\<open>string\<close>: one \<^typ>\<open>char\<close> per UTF-16 code
  unit, restricted to the code units below 256.  The regular expressions of the sources
  use only character classes, concatenation, optional groups, capture groups and
  quantifiers over single character classes; \<open>re\<close> has exactly these.
\<close>

datatype cls =
    Dot                 \<comment> \<open>\<open>.\<close>: any code unit but a line terminator\<close>
  | Digit               \<comment> \<open>\<open>\d\<close>\<close>
  | Space               \<comment> \<open>\<open>\s\<close>\<close>
  | Alpha               \<comment> \<open>\<open>[a-zA-Z]\<close>\<close>
  | Ch char             \<comment> \<open>a literal character\<close>
  | OneOf "char list"   \<comment> \<open>\<open>[...]\<close>\<close>
  | NoneOf "char list"  \<comment> \<open>\<open>[^...]\<close>\<close>

datatype re =
    Eps
  | Atom cls
  | Cat re re
  | Opt re              \<comment> \<open>\<open>r?\<close>, greedy\<close>
  | Star cls            \<comment> \<open>\<open>c*\<close>, greedy\<close>
  | Lazy cls            \<comment> \<open>\<open>c*?\<close>\<close>
  | Cap nat re          \<comment> \<open>the \<open>n\<close>-th capture group\<close>

record regexp =
  pattern :: re
  anchored :: bool      \<comment> \<open>the pattern starts with \<open>^\<close>\<close>
  ignoreCase :: bool    \<comment> \<open>flag \<open>i\<close>\<close>

definition code_unit :: "char \<Rightarrow> nat" where
  "code_unit c = of_char c"

definition is_digit :: "char \<Rightarrow> bool" where
  "is_digit c = (48 \<le> code_unit c \<and> code_unit c \<le> 57)"

definition is_upper :: "char \<Rightarrow> bool" where
  "is_upper c = (65 \<le> code_unit c \<and> code_unit c \<le> 90)"

definition is_lower :: "char \<Rightarrow> bool" where
  "is_lower c = (97 \<le> code_unit c \<and> code_unit c \<le> 122)"

definition is_line_terminator :: "char \<Rightarrow> bool" where
  "is_line_terminator c = (code_unit c = 10 \<or> code_unit c = 13)"

definition is_space :: "char \<Rightarrow> bool" where
  "is_space c = (code_unit c \<in> {9, 10, 11, 12, 13, 32, 160})"

definition to_lower :: "char \<Rightarrow> char" where
  "to_lower c = (if is_upper c then char_of (code_unit c + 32) else c)"

fun cls_ok :: "bool \<Rightarrow> cls \<Rightarrow> char \<Rightarrow> bool" where
  "cls_ok ci Dot x = (\<not> is_line_terminator x)"
| "cls_ok ci Digit x = is_digit x"
| "cls_ok ci Space x = is_space x"
| "cls_ok ci Alpha x = (is_upper x \<or> is_lower x)"
| "cls_ok ci (Ch c) x = (if ci then to_lower x = to_lower c else x = c)"
| "cls_ok ci (OneOf cs) x = (if ci then to_lower x \<in> to_lower ` set cs else x \<in> set cs)"
| "cls_ok ci (NoneOf cs) x = (if ci then to_lower x \<notin> to_lower ` set cs else x \<notin> set cs)"

type_synonym captures = "(nat \<times> string) list"

text \<open>
  \<open>run\<close> lists the ways a pattern can match a prefix of the input, in the order in which
  a backtracking matcher tries them; each is the rest of the input with the groups captured
  so far.
\<close>

fun run :: "bool \<Rightarrow> re \<Rightarrow> string \<times> captures \<Rightarrow> (string \<times> captures) list" where
  "run ci Eps st = [st]"
| "run ci (Atom c) (s, cs) =
     (case s of [] \<Rightarrow> [] | x # xs \<Rightarrow> if cls_ok ci c x then [(xs, cs)] else [])"
| "run ci (Cat a b) st = concat (map (run ci b) (run ci a st))"
| "run ci (Opt a) st = run ci a st @ [st]"
| "run ci (Star c) (s, cs) =
     map (\<lambda>k. (drop k s, cs)) (rev [0 ..< Suc (length (takeWhile (cls_ok ci c) s))])"
| "run ci (Lazy c) (s, cs) =
     map (\<lambda>k. (drop k s, cs)) [0 ..< Suc (length (takeWhile (cls_ok ci c) s))]"
| "run ci (Cap n a) (s, cs) =
     map (\<lambda>(s', cs'). (s', (n, take (length s - length s') s) # cs')) (run ci a (s, cs))"

text \<open>The match of a pattern at the start of a string: the matched text and the groups.\<close>

definition match_here :: "regexp \<Rightarrow> string \<Rightarrow> (string \<times> captures) option" where
  "match_here rx s =
     (case run (ignoreCase rx) (pattern rx) (s, []) of
        [] \<Rightarrow> None
      | (rest, cs) # _ \<Rightarrow> Some (take (length s - length rest) s, cs))"

text \<open>
  \<open>RegExp.prototype.exec\<close> without the \<open>g\<close> flag: the leftmost match, as the index, the
  matched text and the groups; \<open>None\<close> is \<open>null\<close>.  \<open>exec_from i\<close> looks at the suffix that
  starts at index \<open>i\<close>.
\<close>

fun exec_from :: "regexp \<Rightarrow> nat \<Rightarrow> string \<Rightarrow> (nat \<times> string \<times> captures) option" where
  "exec_from rx i [] =
     (case match_here rx [] of None \<Rightarrow> None | Some (m, cs) \<Rightarrow> Some (i, m, cs))"
| "exec_from rx i (x # xs) =
     (case match_here rx (x # xs) of
        Some (m, cs) \<Rightarrow> Some (i, m, cs)
      | None \<Rightarrow> exec_from rx (Suc i) xs)"

definition exec :: "regexp \<Rightarrow> string \<Rightarrow> (nat \<times> string \<times> captures) option" where
  "exec rx s =
     (if anchored rx
      then (case match_here rx s of None \<Rightarrow> None | Some (m, cs) \<Rightarrow> Some (0, m, cs))
      else exec_from rx 0 s)"

definition test :: "regexp \<Rightarrow> string \<Rightarrow> bool" where
  "test rx s = (exec rx s \<noteq> None)"

text \<open>\<open>String.prototype.search\<close>: the index of the first match, \<open>None\<close> for \<open>-1\<close>.\<close>

definition search :: "string \<Rightarrow> regexp \<Rightarrow> nat option" where
  "search s rx = map_option fst (exec rx s)"

text \<open>The value of a capture group: \<open>None\<close> is \<open>undefined\<close> (the group took no part).\<close>

definition group :: "captures \<Rightarrow> nat \<Rightarrow> string option" where
  "group cs n = map_of cs n"

text \<open>\<open>String.prototype.replace\<close> with a pattern without the \<open>g\<close> flag and a function.\<close>

definition replace_first ::
  "string \<Rightarrow> regexp \<Rightarrow> (string \<Rightarrow> captures \<Rightarrow> string) \<Rightarrow> string" where
  "replace_first s rx f =
     (case exec rx s of
        None \<Rightarrow> s
      | Some (i, m, cs) \<Rightarrow> take i s @ f m cs @ drop (i + length m) s)"

text \<open>
  \<open>String.prototype.replace\<close> with a \<open>g\<close> pattern and a replacement text: every match,
  left to right; after an empty match the scan moves on by one code unit.
\<close>

function replace_all :: "string \<Rightarrow> regexp \<Rightarrow> string \<Rightarrow> string" where
  "replace_all [] rx rep = (case match_here rx [] of None \<Rightarrow> [] | Some _ \<Rightarrow> rep)"
| "replace_all (x # xs) rx rep =
     (case match_here rx (x # xs) of
        None \<Rightarrow> x # replace_all xs rx rep
      | Some (m, cs) \<Rightarrow>
          if m = [] then rep @ x # replace_all xs rx rep
          else rep @ replace_all (drop (length m) (x # xs)) rx rep)"
  by pat_completeness auto
termination
  by (relation "measure (\<lambda>(s, rx, rep). length s)") auto

definition lit :: "string \<Rightarrow> re" where
  "lit s = foldr (\<lambda>c r. Cat (Atom (Ch c)) r) s Eps"

fun repeat :: "nat \<Rightarrow> re \<Rightarrow> re" where
  "repeat 0 r = Eps"
| "repeat (Suc n) r = Cat r (repeat n r)"

definition one_or_more :: "cls \<Rightarrow> re" where
  "one_or_more c = Cat (Atom c) (Star c)"

section \<open>JavaScript values\<close>

text \<open>
  The values that the REST replies, the configuration and the promises carry.  Numbers are
  integers (status codes, counts, return codes).
\<close>

datatype jv =
    JUndef
  | JNull
  | JBool bool
  | JNum int
  | JStr string
  | JArr "jv list"
  | JObj "(string \<times> jv) list"

datatype js_error = TypeError | Error string

text \<open>ToBoolean.\<close>

fun truthy :: "jv \<Rightarrow> bool" where
  "truthy JUndef = False"
| "truthy JNull = False"
| "truthy (JBool b) = b"
| "truthy (JNum n) = (n \<noteq> 0)"
| "truthy (JStr s) = (s \<noteq> [])"
| "truthy (JArr xs) = True"
| "truthy (JObj kvs) = True"

text \<open>\<open>a || b\<close>.\<close>

definition or_else :: "jv \<Rightarrow> jv \<Rightarrow> jv" where
  "or_else a b = (if truthy a then a else b)"

text \<open>
  Property access \<open>v.name\<close> and \<open>v[i]\<close>: \<open>None\<close> is the TypeError that reading a property
  of \<open>undefined\<close> or \<open>null\<close> throws; a property that is not there is \<open>undefined\<close>.
\<close>

fun js_get :: "jv \<Rightarrow> string \<Rightarrow> jv option" where
  "js_get JUndef name = None"
| "js_get JNull name = None"
| "js_get (JObj kvs) name = Some (case map_of kvs name of None \<Rightarrow> JUndef | Some v \<Rightarrow> v)"
| "js_get (JArr xs) name = Some (if name = ''length'' then JNum (int (length xs)) else JUndef)"
| "js_get (JStr s) name = Some (if name = ''length'' then JNum (int (length s)) else JUndef)"
| "js_get (JBool b) name = Some JUndef"
| "js_get (JNum n) name = Some JUndef"

text \<open>A natural number in decimal.\<close>

function show_nat :: "nat \<Rightarrow> string" where
  "show_nat n =
     (if n < 10 then [''0123456789'' ! n] else show_nat (n div 10) @ [''0123456789'' ! (n mod 10)])"
  by pat_completeness auto
termination
  by (relation "measure (\<lambda>n. n)") auto

declare show_nat.simps [simp del]

fun js_item :: "jv \<Rightarrow> nat \<Rightarrow> jv option" where
  "js_item JUndef i = None"
| "js_item JNull i = None"
| "js_item (JArr xs) i = Some (if i < length xs then xs ! i else JUndef)"
| "js_item (JObj kvs) i = Some (case map_of kvs (show_nat i) of None \<Rightarrow> JUndef | Some v \<Rightarrow> v)"
| "js_item (JStr s) i = Some (if i < length s then JStr [s ! i] else JUndef)"
| "js_item (JBool b) i = Some JUndef"
| "js_item (JNum n) i = Some JUndef"

text \<open>
  ToString, as a template literal, \<open>String\<close> and a property key apply it.  An array prints
  as its elements joined by commas, \<open>null\<close> and \<open>undefined\<close> among them as the empty string;
  an object prints as \<open>[object Object]\<close>.
\<close>

fun join :: "string list \<Rightarrow> string" where
  "join [] = []"
| "join [s] = s"
| "join (s # t # ss) = s @ '','' @ join (t # ss)"

fun to_string :: "jv \<Rightarrow> string" where
  "to_string JUndef = ''undefined''"
| "to_string JNull = ''null''"
| "to_string (JBool b) = (if b then ''true'' else ''false'')"
| "to_string (JNum n) = (if n < 0 then CHR ''-'' # show_nat (nat (- n)) else show_nat (nat n))"
| "to_string (JStr s) = s"
| "to_string (JArr xs) = join (map (\<lambda>x. if x = JUndef \<or> x = JNull then [] else to_string x) xs)"
| "to_string (JObj kvs) = ''[object Object]''"

text \<open>
  ToNumber.  A number is NaN, an infinity (\<open>Infinite True\<close> is the positive one) or
  \<open>Finite m e\<close>, which is \<open>m\<close> times ten to the power \<open>e\<close>.  A string is read as a numeric
  literal after its white space is trimmed: the empty string is 0; \<open>0x\<close>, \<open>0o\<close> and \<open>0b\<close>
  begin a literal in base 16, 8 and 2, which has no sign; a decimal literal has an
  optional sign, digits with an optional fraction (or a fraction only) and an optional
  exponent, or is \<open>Infinity\<close>; any other string is NaN.  An array or an object is read
  through the string it prints as.
\<close>

datatype number = NaN | Infinite bool | Finite int int

definition trim :: "string \<Rightarrow> string" where
  "trim s = rev (dropWhile is_space (rev (dropWhile is_space s)))"

definition digit_value :: "char \<Rightarrow> nat" where
  "digit_value c =
     (if is_digit c then code_unit c - 48
      else if 97 \<le> code_unit c \<and> code_unit c \<le> 102 then code_unit c - 87
      else if 65 \<le> code_unit c \<and> code_unit c \<le> 70 then code_unit c - 55
      else 16)"

fun read_digits :: "nat \<Rightarrow> string \<Rightarrow> nat \<Rightarrow> nat option" where
  "read_digits b [] acc = Some acc"
| "read_digits b (c # cs) acc =
     (if digit_value c < b then read_digits b cs (b * acc + digit_value c) else None)"

definition radix_literal :: "string \<Rightarrow> nat option" where
  "radix_literal s =
     (case s of
        z # x # d # ds \<Rightarrow>
          if z \<noteq> CHR ''0'' then None
          else if x = CHR ''x'' \<or> x = CHR ''X'' then read_digits 16 (d # ds) 0
          else if x = CHR ''o'' \<or> x = CHR ''O'' then read_digits 8 (d # ds) 0
          else if x = CHR ''b'' \<or> x = CHR ''B'' then read_digits 2 (d # ds) 0
          else None
      | _ \<Rightarrow> None)"

definition exponent :: "string \<Rightarrow> int option" where
  "exponent s =
     (case s of
        [] \<Rightarrow> Some 0
      | c # r \<Rightarrow>
          if c \<noteq> CHR ''e'' \<and> c \<noteq> CHR ''E'' then None
          else (case r of
                  [] \<Rightarrow> None
                | d # ds \<Rightarrow>
                    if d = CHR ''+''
                    then (if ds = [] then None else map_option int (read_digits 10 ds 0))
                    else if d = CHR ''-''
                    then (if ds = [] then None else map_option (\<lambda>k. - int k) (read_digits 10 ds 0))
                    else map_option int (read_digits 10 r 0)))"

definition unsigned_decimal :: "string \<Rightarrow> number" where
  "unsigned_decimal s =
     (if s = ''Infinity'' then Infinite True
      else
        (let ip = takeWhile is_digit s;
             r1 = dropWhile is_digit s;
             dot = (r1 \<noteq> [] \<and> hd r1 = CHR ''.'');
             fp = (if dot then takeWhile is_digit (tl r1) else []);
             r2 = (if dot then dropWhile is_digit (tl r1) else r1)
         in if ip = [] \<and> fp = [] then NaN
            else (case (exponent r2, read_digits 10 (ip @ fp) 0) of
                    (Some ex, Some m) \<Rightarrow> Finite (int m) (ex - int (length fp))
                  | _ \<Rightarrow> NaN)))"

fun negate :: "number \<Rightarrow> number" where
  "negate NaN = NaN"
| "negate (Infinite b) = Infinite (\<not> b)"
| "negate (Finite m ex) = Finite (- m) ex"

definition string_to_number :: "string \<Rightarrow> number" where
  "string_to_number str =
     (let s = trim str in
      case s of
        [] \<Rightarrow> Finite 0 0
      | c # r \<Rightarrow>
          (case radix_literal s of
             Some v \<Rightarrow> Finite (int v) 0
           | None \<Rightarrow>
               if c = CHR ''+'' then unsigned_decimal r
               else if c = CHR ''-'' then negate (unsigned_decimal r)
               else unsigned_decimal s))"

fun to_number :: "jv \<Rightarrow> number" where
  "to_number JUndef = NaN"
| "to_number JNull = Finite 0 0"
| "to_number (JBool b) = Finite (if b then 1 else 0) 0"
| "to_number (JNum k) = Finite k 0"
| "to_number v = string_to_number (to_string v)"

text \<open>
  \<open>v > n\<close> for an integer \<open>n\<close>: false when \<open>v\<close> is NaN.  The values are compared as they
  are written; JavaScript compares the doubles nearest to them, which gives the same
  unless the literal has more significant digits than a double holds or is beyond its
  range.
\<close>

fun number_gt :: "number \<Rightarrow> int \<Rightarrow> bool" where
  "number_gt NaN n = False"
| "number_gt (Infinite b) n = b"
| "number_gt (Finite m ex) n =
     (if 0 \<le> ex then m * 10 ^ nat ex > n else m > n * 10 ^ nat (- ex))"

definition greater :: "jv \<Rightarrow> int \<Rightarrow> bool" where
  "greater v n = number_gt (to_number v) n"

text \<open>\<open>Object.assign(target, source)\<close>: a key keeps its place, a new key goes to the end.\<close>

definition assign :: "(string \<times> 'a) list \<Rightarrow> (string \<times> 'a) list \<Rightarrow> (string \<times> 'a) list" where
  "assign target source = fold (\<lambda>(k, v). AList.update k v) source target"

text \<open>\<open>obj.name\<close> for an object literal: \<open>undefined\<close> when the property is not there.\<close>

definition field_of :: "(string \<times> jv) list \<Rightarrow> string \<Rightarrow> jv" where
  "field_of obj name = (case map_of obj name of None \<Rightarrow> JUndef | Some v \<Rightarrow> v)"

text \<open>
  \<open>name in obj\<close> for an object given as the association list of its own properties: the
  properties that every object inherits from \<open>Object.prototype\<close> are in it as well.
\<close>

definition object_prototype :: "string list" where
  "object_prototype =
     [''constructor'', ''hasOwnProperty'', ''isPrototypeOf'', ''propertyIsEnumerable'',
      ''toLocaleString'', ''toString'', ''valueOf'', ''__proto__'', ''__defineGetter__'',
      ''__defineSetter__'', ''__lookupGetter__'', ''__lookupSetter__'']"

definition has_key :: "string \<Rightarrow> (string \<times> 'a) list \<Rightarrow> bool" where
  "has_key name obj = (name \<in> set (map fst obj) \<or> name \<in> set object_prototype)"

section \<open>Configuration (config.js) and messages\<close>

record spam_config =
  timeSpan :: nat
  maxNumOfIssues :: int
  headers :: "string list"
  dontCheckAuthors :: "string list"

record rest_config =
  protocol :: string
  host :: string
  port :: nat
  url :: string
  paths :: "(string \<times> string) list"
  dbQueryUri :: string
  maxQueryMessages :: nat
  createSystemIssue :: bool                         \<comment> \<open>\<open>onPersonNotFound.createSystemIssue\<close>\<close>
  permittedBodyAttributes :: "(string \<times> string) list"
  defaultIssueAttrs :: "(string \<times> jv) list"
  joinOriginalAsEml :: bool
  joinAttachments :: bool
  truncateCommentsAfterDelimiter :: bool
  commentDelimiters :: "regexp list"                \<comment> \<open>a string delimiter is the pattern it compiles to\<close>
  spam :: spam_config

text \<open>
  What the program takes from its JavaScript host and from the libraries \<open>cheerio\<close> and
  \<open>mailparser\<close>: they are parameters of the model.  \<open>Date_parse\<close> is \<open>Date.parse\<close> (\<open>None\<close>
  is NaN), \<open>now\<close> is \<open>new Date()\<close>, \<open>body_text\<close> is \<open>cheerio.load(s)('body').text()\<close>, and
  \<open>truncate_dom\<close> is the DOM branch of \<open>removeComments\<close>, from \<open>cheerio.load(body)\<close> to
  \<open>$.html()\<close>.
\<close>

record host =
  Date_parse :: "string \<Rightarrow> int option"
  now :: jv
  body_text :: "string \<Rightarrow> string"
  truncate_dom :: "regexp list \<Rightarrow> string \<Rightarrow> string"

record attachment =
  fileName :: string
  contentType :: string
  content :: "string option"     \<comment> \<open>the decoded bytes; \<open>None\<close> on a part found in the structure only\<close>

record message =
  uid :: nat
  header :: "(string \<times> string list) list"
  body :: string
  parsedFields :: "(string \<times> string) list option"   \<comment> \<open>\<open>None\<close>: not set yet\<close>
  attachments :: "attachment list"

section \<open>Promises\<close>

text \<open>
  What the program asks of the outside: an HTTP request through \<open>request(options,
  callback)\<close>, the IMAP commands \<open>fetch\<close> and \<open>move\<close>, and the streamed uploads.  Of the
  options the model keeps the URI, the method (\<open>verb\<close>) and the body.
\<close>

record http_options =
  uri :: string
  verb :: string
  payload :: jv            \<comment> \<open>\<open>body\<close>; \<open>undefined\<close> on a GET\<close>

datatype rbody =
    Unparsable string      \<comment> \<open>a body that is not JSON\<close>
  | Parsed jv              \<comment> \<open>a JSON body, parsed\<close>

datatype http_reply =
    Net_error                      \<comment> \<open>the callback gets an error and no response\<close>
  | Response nat rbody             \<comment> \<open>status code and body\<close>

datatype fetch_reply =
    Fetch_error
  | Fetched string "attachment list"   \<comment> \<open>\<open>mail.html || mail.text\<close> and \<open>mail.attachments\<close>\<close>
  | Fetched_empty                      \<comment> \<open>a mail with neither \<open>html\<close> nor \<open>text\<close>\<close>

datatype eml_reply =
    Eml_fetch_error                \<comment> \<open>the fetch of the raw message fails\<close>
  | Eml_stream_error               \<comment> \<open>the upload stream fails\<close>
  | Eml_response http_reply

record upload =
  upload_uri :: string
  upload_name :: string
  upload_type :: string

text \<open>
  A task is a computation that is suspended at each request until the reply comes, and
  at each handler of a promise until the job that runs the handler comes up.
  \<open>Uncaught\<close> is an exception thrown in an I/O callback: nothing catches it, and the promise
  that the callback was to settle stays pending.  A rejected promise that nothing is
  chained on (the source makes some, as in \<open>Promise.reject(email);\<close> as a statement) has
  no effect on the promises that are.
\<close>

datatype 'a task =
    Done 'a
  | Uncaught
  | Tick "'a task"                                   \<comment> \<open>goes on in a later job of the promise queue\<close>
  | Request http_options "http_reply \<Rightarrow> 'a task"
  | Imap_fetch nat "fetch_reply \<Rightarrow> 'a task"
  | Imap_move nat jv "bool \<Rightarrow> 'a task"            \<comment> \<open>the reply is true when the move fails\<close>
  | Eml_upload nat upload "eml_reply \<Rightarrow> 'a task"
  | Uploads "upload list" "'a task"                  \<comment> \<open>goes on when \<open>Promise.all\<close> of the uploads has settled\<close>

primrec bind_task :: "'a task \<Rightarrow> ('a \<Rightarrow> 'b task) \<Rightarrow> 'b task" where
  "bind_task (Done a) f = f a"
| "bind_task Uncaught f = Uncaught"
| "bind_task (Tick t) f = Tick (bind_task t f)"
| "bind_task (Request opts k) f = Request opts (\<lambda>r. bind_task (k r) f)"
| "bind_task (Imap_fetch u k) f = Imap_fetch u (\<lambda>r. bind_task (k r) f)"
| "bind_task (Imap_move u b k) f = Imap_move u b (\<lambda>r. bind_task (k r) f)"
| "bind_task (Eml_upload u up k) f = Eml_upload u up (\<lambda>r. bind_task (k r) f)"
| "bind_task (Uploads ups k) f = Uploads ups (bind_task k f)"

text \<open>
  How a promise settles.  No handler of the program looks at the reason of a rejection, so
  the model does not carry it.
\<close>

datatype 'a settle = Resolved 'a | Rejected

text \<open>
  A promise of the dispatch of one message: the message object is shared and mutated by
  the callbacks, so it is the state that the promise threads through.
\<close>

type_synonym 'a promise = "message \<Rightarrow> ('a settle \<times> message) task"

definition resolve :: "'a \<Rightarrow> 'a promise" where
  "resolve v = (\<lambda>m. Done (Resolved v, m))"

definition reject :: "'a promise" where
  "reject = (\<lambda>m. Done (Rejected, m))"

definition uncaught :: "'a promise" where
  "uncaught = (\<lambda>m. Uncaught)"

text \<open>\<open>p.then(f)\<close> and \<open>p.catch(h)\<close>; the handlers of the program ignore the reason.\<close>

definition then_p :: "'a promise \<Rightarrow> ('a \<Rightarrow> 'b promise) \<Rightarrow> 'b promise" where
  "then_p p f = (\<lambda>m. bind_task (p m) (\<lambda>(s, m').
     Tick (case s of Resolved v \<Rightarrow> f v m' | Rejected \<Rightarrow> Done (Rejected, m'))))"

definition catch_p :: "'a promise \<Rightarrow> 'a promise \<Rightarrow> 'a promise" where
  "catch_p p h = (\<lambda>m. bind_task (p m) (\<lambda>(s, m').
     Tick (case s of Resolved v \<Rightarrow> Done (Resolved v, m') | Rejected \<Rightarrow> h m')))"

text \<open>
  Modelled from the spec: \<open>finally\<close> comes from the module \<open>promise-finally\<close>, which is not
  among the sources.  The spec says that the \<open>finally\<close> clauses of the source alter the
  downstream resolution state: the callback runs however the promise settles; when what
  it returns rejects, the result rejects; otherwise the result settles as the promise did.
\<close>

definition finally_p :: "'a promise \<Rightarrow> 'b promise \<Rightarrow> 'a promise" where
  "finally_p p cb = (\<lambda>m. bind_task (p m) (\<lambda>(s, m').
     Tick (bind_task (cb m') (\<lambda>(c, m'').
       case c of Resolved v \<Rightarrow> Done (s, m'') | Rejected \<Rightarrow> Done (Rejected, m'')))))"

text \<open>
  A callback of \<open>then\<close> or \<open>catch\<close> that throws rejects the promise derived from it.
\<close>

definition callback :: "js_error + 'a promise \<Rightarrow> 'a promise" where
  "callback r = (case r of Inl e \<Rightarrow> reject | Inr p \<Rightarrow> p)"

text \<open>Reading and writing the message object.\<close>

definition with_message :: "(message \<Rightarrow> 'a promise) \<Rightarrow> 'a promise" where
  "with_message f = (\<lambda>m. f m m)"

text \<open>The requests, as promises of their replies.\<close>

definition request :: "http_options \<Rightarrow> (http_reply \<Rightarrow> 'a promise) \<Rightarrow> 'a promise" where
  "request opts k = (\<lambda>m. Request opts (\<lambda>r. k r m))"

section \<open>Running a task\<close>

text \<open>
  The environment answers each request; the run of a task lists the requests in the order
  in which they are issued and gives the result, \<open>None\<close> when the task ends in \<open>Uncaught\<close>.
\<close>

record env =
  http :: "http_options \<Rightarrow> http_reply"
  imap_fetch :: "nat \<Rightarrow> fetch_reply"
  imap_move :: "nat \<Rightarrow> jv \<Rightarrow> bool"
  eml_upload :: "nat \<Rightarrow> upload \<Rightarrow> eml_reply"

datatype event =
    Ev_request http_options
  | Ev_fetch nat
  | Ev_move nat jv
  | Ev_eml nat upload
  | Ev_uploads "upload list"

primrec run_task :: "env \<Rightarrow> 'a task \<Rightarrow> event list \<times> 'a option" where
  "run_task e (Done a) = ([], Some a)"
| "run_task e Uncaught = ([], None)"
| "run_task e (Tick t) = run_task e t"
| "run_task e (Request opts k) =
     (case run_task e (k (http e opts)) of (evs, r) \<Rightarrow> (Ev_request opts # evs, r))"
| "run_task e (Imap_fetch u k) =
     (case run_task e (k (imap_fetch e u)) of (evs, r) \<Rightarrow> (Ev_fetch u # evs, r))"
| "run_task e (Imap_move u b k) =
     (case run_task e (k (imap_move e u b)) of (evs, r) \<Rightarrow> (Ev_move u b # evs, r))"
| "run_task e (Eml_upload u up k) =
     (case run_task e (k (eml_upload e u up)) of (evs, r) \<Rightarrow> (Ev_eml u up # evs, r))"
| "run_task e (Uploads ups k) =
     (case run_task e k of (evs, r) \<Rightarrow> (Ev_uploads ups # evs, r))"

text \<open>The events of a run, put after earlier events.\<close>

definition after :: "event list \<Rightarrow> event list \<times> 'a \<Rightarrow> event list \<times> 'a" where
  "after evs r = (evs @ fst r, snd r)"

fun is_request :: "event \<Rightarrow> bool" where
  "is_request (Ev_request opts) = True"
| "is_request ev = False"

section \<open>The REST client (rest.js)\<close>

definition getModelPath :: "rest_config \<Rightarrow> string \<Rightarrow> js_error + string" where
  "getModelPath cfg modelName =
     (case map_of (paths cfg) modelName of
        None \<Rightarrow> Inl (Error (''The path for model '' @ modelName @ '' is not defined in config.js''))
      | Some path \<Rightarrow>
          if path = []
          then Inl (Error (''The path for model '' @ modelName @ '' is not defined in config.js''))
          else Inr (protocol cfg @ ''://'' @ host cfg @ '':'' @ show_nat (port cfg) @ ''/''
                    @ url cfg @ ''/'' @ path))"

text \<open>The patterns \<open>/<.*>/\<close> and \<open>/[<>]*/g\<close> of \<open>parseEmailAddress\<close>.\<close>

definition addressRe :: regexp where
  "addressRe =
     \<lparr> pattern = Cat (Atom (Ch CHR ''<'')) (Cat (Star Dot) (Atom (Ch CHR ''>''))),
       anchored = False, ignoreCase = False \<rparr>"

definition bracketsRe :: regexp where
  "bracketsRe = \<lparr> pattern = Star (OneOf ''<>''), anchored = False, ignoreCase = False \<rparr>"

text \<open>
  \<open>String(email).match(/<.*>/)[0]\<close> throws a TypeError when there is no match: \<open>match\<close>
  gives \<open>null\<close> then.
\<close>

definition parseEmailAddress :: "jv \<Rightarrow> js_error + string" where
  "parseEmailAddress email =
     (case exec addressRe (to_string email) of
        None \<Rightarrow> Inl TypeError
      | Some (i, parsed, cs) \<Rightarrow>
          (let address = (if parsed \<noteq> [] then replace_all parsed bracketsRe [] else parsed)
           in Inr (if address \<noteq> [] then address else [])))"

text \<open>
  The callback of the person lookup: \<open>Some id\<close> is \<open>resolve(id)\<close>, \<open>None\<close> is \<open>reject(email)\<close>,
  also from the \<open>catch\<close> of the \<open>try\<close> block.
\<close>

definition person_of_reply :: "http_reply \<Rightarrow> jv option" where
  "person_of_reply r =
     (case r of
        Net_error \<Rightarrow> None
      | Response st (Unparsable t) \<Rightarrow> None
      | Response st (Parsed result) \<Rightarrow>
          do {
            rc \<leftarrow> js_get result ''ReturnCode'';
            if rc \<noteq> JNum 0 then None
            else do {
              cnt \<leftarrow> js_get result ''@count'';
              if cnt = JNum 0 then None
              else do {
                resourceName \<leftarrow> js_get result ''ResourceName'';
                cont \<leftarrow> js_get result ''content'';
                first \<leftarrow> js_item cont 0;
                person \<leftarrow> js_get first (to_string resourceName);
                js_get person ''Id''
              }
            }
          })"

text \<open>
  \<open>getPersonIdByEmail\<close> throws what \<open>getModelPath\<close> and \<open>parseEmailAddress\<close> throw, returns
  \<open>undefined\<close> (\<open>None\<close>) when the address is empty, and a promise otherwise.
\<close>

definition getPersonIdByEmail :: "rest_config \<Rightarrow> jv \<Rightarrow> js_error + jv promise option" where
  "getPersonIdByEmail cfg email =
     (case getModelPath cfg ''Persons'' of
        Inl e \<Rightarrow> Inl e
      | Inr path \<Rightarrow>
          (case parseEmailAddress email of
             Inl e \<Rightarrow> Inl e
           | Inr address \<Rightarrow>
               if address = [] then Inr None
               else Inr (Some (request
                      \<lparr> uri = path @ ''?email='' @ address, verb = ''GET'', payload = JUndef \<rparr>
                      (\<lambda>r. case person_of_reply r of None \<Rightarrow> reject | Some found \<Rightarrow> resolve found)))))"

text \<open>\<open>parseId\<close>: the first \<open>prefix\d{12}\<close> in a string, and \<open>''\<close> for everything else.\<close>

definition idRe :: "string \<Rightarrow> regexp" where
  "idRe prefix =
     \<lparr> pattern = Cat (lit prefix) (repeat 12 (Atom Digit)), anchored = False, ignoreCase = False \<rparr>"

definition parseId :: "string \<Rightarrow> jv \<Rightarrow> string" where
  "parseId prefix str =
     (case str of
        JStr s \<Rightarrow> (case exec (idRe prefix) s of None \<Rightarrow> [] | Some (i, m, cs) \<Rightarrow> m)
      | _ \<Rightarrow> [])"

text \<open>\<open>message.header[name][0]\<close>: a TypeError when the header is not there.\<close>

definition header_first :: "message \<Rightarrow> string \<Rightarrow> js_error + jv" where
  "header_first m name =
     (case map_of (header m) name of
        None \<Rightarrow> Inl TypeError
      | Some [] \<Rightarrow> Inr JUndef
      | Some (v # vs) \<Rightarrow> Inr (JStr v))"



text \<open>
  The issue that \<open>makeIssue\<close> builds.  Its \<open>parsedFields\<close> is a reference to the object that
  \<open>message.parsedFields\<close> refers to, so it is read from, and updated in, the message.
\<close>

record issue =
  ident :: jv                \<comment> \<open>\<open>id\<close>\<close>
  title :: jv
  description :: string
  externalId :: nat

definition makeIssue :: "message \<Rightarrow> js_error + issue" where
  "makeIssue message =
     (case header_first message ''subject'' of
        Inl e \<Rightarrow> Inl e
      | Inr subject \<Rightarrow>
          Inr \<lparr> ident = JNull, title = subject, description = body message,
                externalId = uid message \<rparr>)"

text \<open>
  The callbacks of the two POSTs that create an issue or a comment.  On an error or a
  status other than 200 they log \<open>response.body.Messages.join(', ')\<close> before they reject:
  that throws when there is no response, or no array \<open>Messages\<close> in its body, and nothing
  catches it (\<open>None\<close>).
\<close>

definition body_value :: "rbody \<Rightarrow> jv" where
  "body_value b = (case b of Unparsable t \<Rightarrow> JStr t | Parsed v \<Rightarrow> v)"

definition created_id :: "string \<Rightarrow> http_reply \<Rightarrow> jv settle option" where
  "created_id prefix r =
     (case r of
        Net_error \<Rightarrow> None
      | Response st b \<Rightarrow>
          if st \<noteq> 200 then
            (case js_get (body_value b) ''Messages'' of
               Some (JArr msgs) \<Rightarrow> Some Rejected
             | _ \<Rightarrow> None)
          else
            (case do {
                    rc \<leftarrow> js_get (body_value b) ''ReturnCode'';
                    if rc \<noteq> JNum 0 then Some []
                    else do {
                      msgs \<leftarrow> js_get (body_value b) ''Messages'';
                      msg \<leftarrow> js_item msgs 0;
                      Some (parseId prefix msg)
                    }
                  }
             of None \<Rightarrow> Some Rejected
              | Some found \<Rightarrow> if found \<noteq> [] then Some (Resolved (JStr found)) else Some Rejected))"

definition settle_with :: "'a settle option \<Rightarrow> 'a promise" where
  "settle_with r =
     (case r of None \<Rightarrow> uncaught | Some (Resolved v) \<Rightarrow> resolve v | Some Rejected \<Rightarrow> reject)"

definition dbQuery :: "rest_config \<Rightarrow> string \<Rightarrow> http_options" where
  "dbQuery cfg query = \<lparr> uri = dbQueryUri cfg, verb = ''POST'', payload = JStr query \<rparr>"

definition timezoneQuery :: "jv \<Rightarrow> string" where
  "timezoneQuery personId =
     ''SELECT ISNULL(tzo.offset, tzo1.offset) AS OFFSET FROM dbo.z_persons AS p ''
     @ ''LEFT JOIN dbo.z_time_zones tz ON p.time_zone_id = tz.id ''
     @ ''LEFT JOIN dbo.z_time_zone_offsets tzo ON tz.id = tzo.time_zone_id ''
     @ ''CROSS JOIN dbo.z_system_settings AS ss ''
     @ ''LEFT JOIN dbo.z_time_zone_offsets AS tzo1 ON tzo1.time_zone_id = ss.time_zone_id ''
     @ ''WHERE p.id = '' @ [CHR 0x27] @ to_string personId @ [CHR 0x27]
     @ '' AND (tzo.switched_on <= GETUTCDATE() OR tzo1.switched_on <= GETUTCDATE()) ''
     @ ''ORDER BY tzo.switched_on DESC, tzo1.switched_on DESC''"

text \<open>
  The callback of the timezone query: \<open>Some offset\<close> is \<open>resolve(offset)\<close>, \<open>None\<close> is
  \<open>reject(personId)\<close>.
\<close>

definition offset_of_reply :: "http_reply \<Rightarrow> jv option" where
  "offset_of_reply r =
     (case r of
        Net_error \<Rightarrow> None
      | Response st b \<Rightarrow>
          if st \<noteq> 200 then None
          else (case b of
                  Unparsable t \<Rightarrow> None
                | Parsed result \<Rightarrow>
                    do {
                      results \<leftarrow> js_get result ''results'';
                      if \<not> truthy results then None
                      else do {
                        len \<leftarrow> js_get results ''length'';
                        if \<not> truthy len then None
                        else do {
                          row \<leftarrow> js_item results 0;
                          offset \<leftarrow> js_get row ''OFFSET'';
                          if \<not> truthy offset then None else Some offset
                        }
                      }
                    }))"

definition getTimezoneOffsetByPersonId :: "rest_config \<Rightarrow> jv \<Rightarrow> jv promise" where
  "getTimezoneOffsetByPersonId cfg personId =
     (if parseId ''PRS'' personId = [] then reject
      else request (dbQuery cfg (timezoneQuery personId))
             (\<lambda>r. case offset_of_reply r of None \<Rightarrow> reject | Some offset \<Rightarrow> resolve offset))"

text \<open>
  \<open>updateDates\<close>: \<open>Object.keys\<close> throws on \<open>undefined\<close> (\<open>None\<close>); \<open>if (Date.parse(v))\<close> holds
  for a number that is neither NaN nor 0.
\<close>

definition is_date :: "host \<Rightarrow> string \<Rightarrow> bool" where
  "is_date hst v = (case Date_parse hst v of None \<Rightarrow> False | Some t \<Rightarrow> t \<noteq> 0)"

definition updateDates ::
  "host \<Rightarrow> (string \<times> string) list option \<Rightarrow> jv \<Rightarrow> (string \<times> string) list option" where
  "updateDates hst obj timeZone =
     (case obj of
        None \<Rightarrow> None
      | Some flds \<Rightarrow>
          Some (map (\<lambda>(field, v).
                  (field, if is_date hst v then v @ to_string (or_else timeZone (JStr ''+00:00'')) else v))
                flds))"

text \<open>
  \<open>issue.parsedFields = updateDates(issue.parsedFields, timeZone)\<close>, as a callback: it
  throws when \<open>updateDates\<close> does, and else returns \<open>undefined\<close>.
\<close>

definition update_parsedFields :: "host \<Rightarrow> jv \<Rightarrow> jv promise" where
  "update_parsedFields hst timeZone =
     (\<lambda>m. case updateDates hst (parsedFields m) timeZone of
             None \<Rightarrow> Done (Rejected, m)
           | Some flds \<Rightarrow> Done (Resolved JUndef, m\<lparr>parsedFields := Some flds\<rparr>))"

definition issue_fields :: "rest_config \<Rightarrow> host \<Rightarrow> issue \<Rightarrow> (string \<times> jv) list" where
  "issue_fields cfg hst issue =
     (let defaults = defaultIssueAttrs cfg in
      [(''authorId'', or_else (ident issue) (field_of defaults ''authorId'')),
       (''customerId'', or_else (ident issue) JNull),
       (''title'', title issue),
       (''description'', JStr (description issue)),
       (''createdOn'', now hst),
       (''startedOn'', now hst),
       (''externalId'', JNum (int (externalId issue)))])"

text \<open>\<open>getIssueObj\<close>: \<open>Object.assign({}, defaults, issue.parsedFields, flds)\<close>.\<close>

definition getIssueObj ::
  "rest_config \<Rightarrow> host \<Rightarrow> issue \<Rightarrow> (string \<times> string) list option \<Rightarrow> (string \<times> jv) list" where
  "getIssueObj cfg hst issue parsed =
     assign
       (assign (assign [] (defaultIssueAttrs cfg))
          (case parsed of None \<Rightarrow> [] | Some flds \<Rightarrow> map (\<lambda>(k, v). (k, JStr v)) flds))
       (issue_fields cfg hst issue)"

text \<open>\<open>fields.customerId || fields.authorId\<close>: the person whose timezone is looked up.\<close>

definition timezone_person :: "rest_config \<Rightarrow> host \<Rightarrow> issue \<Rightarrow> jv" where
  "timezone_person cfg hst issue =
     or_else (field_of (issue_fields cfg hst issue) ''customerId'')
             (field_of (issue_fields cfg hst issue) ''authorId'')"

definition createIssue :: "rest_config \<Rightarrow> host \<Rightarrow> issue \<Rightarrow> js_error + jv promise" where
  "createIssue cfg hst issue =
     (case getModelPath cfg ''Issues'' of
        Inl e \<Rightarrow> Inl e
      | Inr path \<Rightarrow>
          (Inr (\<lambda>m.
                bind_task
                  (catch_p
                     (then_p (getTimezoneOffsetByPersonId cfg (timezone_person cfg hst issue))
                        (\<lambda>offset. update_parsedFields hst offset))
                     (update_parsedFields hst JUndef) m)
                  (\<lambda>(s, m'). Tick
                     (request
                        \<lparr> uri = path, verb = ''POST'',
                          payload = JObj [(''ZIssue'', JObj (getIssueObj cfg hst issue (parsedFields m')))] \<rparr>
                        (\<lambda>r. settle_with (created_id ''SRQ'' r)) m')))))"

record comment =
  authorId :: jv
  issueId :: jv
  comment_description :: string      \<comment> \<open>\<open>description\<close>\<close>

definition comment_fields :: "rest_config \<Rightarrow> host \<Rightarrow> comment \<Rightarrow> (string \<times> jv) list" where
  "comment_fields cfg hst c =
     (let defaults = defaultIssueAttrs cfg in
      [(''authorId'', or_else (authorId c) (field_of defaults ''authorId'')),
       (''comment'', JStr (comment_description c)),
       (''createdOn'', now hst),
       (''foreignKey'', issueId c),
       (''isPublic'', JBool True)])"

definition createComment :: "rest_config \<Rightarrow> host \<Rightarrow> comment \<Rightarrow> js_error + jv promise" where
  "createComment cfg hst c =
     (case getModelPath cfg ''Comments'' of
        Inl e \<Rightarrow> Inl e
      | Inr path \<Rightarrow>
          Inr (request
                 \<lparr> uri = path, verb = ''POST'',
                   payload = JObj [(''ZComment'', JObj (assign [] (comment_fields cfg hst c)))] \<rparr>
                 (\<lambda>r. settle_with (created_id ''CMT'' r))))"

definition spamQuery :: "rest_config \<Rightarrow> jv \<Rightarrow> string" where
  "spamQuery cfg personId =
     ''SELECT COUNT(*) AS ISSUES FROM Z_ISSUES WHERE CUSTOMER_ID = ''
     @ [CHR 0x27] @ to_string personId @ [CHR 0x27]
     @ '' AND DATEDIFF(MINUTE, CREATED_ON, GETUTCDATE()) <= '' @ show_nat (timeSpan (spam cfg))"

text \<open>
  The callback of the spam query: true is \<open>reject(personId)\<close>, false is \<open>resolve(personId)\<close>.
  An exception in the \<open>try\<close> block resolves.
\<close>

definition spam_verdict :: "rest_config \<Rightarrow> http_reply \<Rightarrow> bool" where
  "spam_verdict cfg r =
     (case r of
        Net_error \<Rightarrow> False
      | Response st b \<Rightarrow>
          if st \<noteq> 200 then False
          else (case b of
                  Unparsable t \<Rightarrow> False
                | Parsed result \<Rightarrow>
                    (case do {
                            results \<leftarrow> js_get result ''results'';
                            if \<not> truthy results then Some False
                            else do {
                              len \<leftarrow> js_get results ''length'';
                              if \<not> truthy len then Some False
                              else do {
                                row \<leftarrow> js_item results 0;
                                issues \<leftarrow> js_get row ''ISSUES'';
                                Some (greater issues (maxNumOfIssues (spam cfg)))
                              }
                            }
                          }
                     of None \<Rightarrow> False | Some v \<Rightarrow> v)))"

definition hasSpamHeaders :: "rest_config \<Rightarrow> message \<Rightarrow> bool" where
  "hasSpamHeaders cfg message = list_ex (\<lambda>h. has_key h (header message)) (headers (spam cfg))"

definition checkSpamByPersonId :: "rest_config \<Rightarrow> jv \<Rightarrow> message \<Rightarrow> jv promise" where
  "checkSpamByPersonId cfg personId message =
     (if personId \<in> JStr ` set (dontCheckAuthors (spam cfg)) then resolve personId
      else if hasSpamHeaders cfg message then reject
      else request (dbQuery cfg (spamQuery cfg personId))
             (\<lambda>r. if spam_verdict cfg r then reject else resolve personId))"

section \<open>Mailbox structure check (imap.js, checkBoxes)\<close>

record box_config =
  success :: string
  failure :: string

text \<open>
  \<open>mailboxConfig\<close> is an object; \<open>Object.keys\<close> lists its keys in insertion order, so
  it is an association list.  The hierarchy that \<open>getBoxes\<close> returns maps a name to a
  mailbox whose \<open>children\<close> is \<open>null\<close> or such a map again.
\<close>

type_synonym mailbox_config = "(string \<times> box_config) list"

datatype mailbox = Mailbox (children: "(string \<times> mailbox) list option")

type_synonym boxes = "(string \<times> mailbox) list"

record conn =
  delimiter :: "string option"
  mailboxConfig :: mailbox_config
  isRunning :: bool

datatype getBoxes_reply = Boxes_error | Boxes boxes

datatype check_result =
    Check_resolved "string list"      \<comment> \<open>\<open>resolve(success)\<close>\<close>
  | Check_rejected "string list"      \<comment> \<open>\<open>reject(failure)\<close>\<close>
  | Check_error                       \<comment> \<open>\<open>reject(err)\<close>\<close>

text \<open>\<open>children && box in children\<close>, as the truth value that \<open>logCheckResult\<close> tests.\<close>

definition child_in :: "mailbox \<Rightarrow> string \<Rightarrow> bool" where
  "child_in b box = (case children b of None \<Rightarrow> False | Some cs \<Rightarrow> has_key box cs)"

text \<open>
  The state of \<open>logCheckResult\<close> is the flag \<open>checked\<close> and the error log.
\<close>

definition logCheckResult :: "string \<Rightarrow> bool \<Rightarrow> bool \<times> string list \<Rightarrow> bool \<times> string list" where
  "logCheckResult boxName result st =
     (case st of (checked, log) \<Rightarrow>
        (if \<not> result \<and> checked then False else checked,
         if \<not> result
         then log @ [''Checking mailbox '' @ [CHR 0x27] @ boxName @ [CHR 0x27] @ '': failed to open'']
         else log))"

text \<open>
  \<open>boxes[name]\<close> when \<open>name in boxes\<close>: an inherited property is a function or the
  prototype, which has no \<open>children\<close>.
\<close>

definition box_named :: "boxes \<Rightarrow> string \<Rightarrow> mailbox option" where
  "box_named bs name =
     (case map_of bs name of
        Some b \<Rightarrow> Some b
      | None \<Rightarrow> if has_key name bs then Some (Mailbox None) else None)"

text \<open>One round of the \<open>forEach\<close> over the configured names; \<open>checked\<close> starts as true.\<close>

definition check_name ::
  "conn \<Rightarrow> boxes \<Rightarrow> string list \<times> string list \<times> string list \<Rightarrow> string
     \<Rightarrow> string list \<times> string list \<times> string list" where
  "check_name c bs st name =
     (case st of (succ, fail, log) \<Rightarrow>
        (case
           (case box_named bs name of
              Some b \<Rightarrow>
                (let cfg = the (map_of (mailboxConfig c) name);
                     delim = (case delimiter c of Some d \<Rightarrow> if d = [] then ''/'' else d | None \<Rightarrow> ''/'');
                     st1 = logCheckResult name True (True, log);
                     st2 = logCheckResult (name @ delim @ success cfg) (child_in b (success cfg)) st1
                 in logCheckResult (name @ delim @ failure cfg) (child_in b (failure cfg)) st2)
            | None \<Rightarrow> logCheckResult name True (True, log))
         of (checked, log') \<Rightarrow>
           if checked then (succ @ [name], fail, log') else (succ, fail @ [name], log')))"

text \<open>
  \<open>checkBoxes\<close>, given what \<open>getBoxes\<close> calls back with: how the promise settles, and the
  error log.  After \<open>reject(err)\<close> the callback goes on (there is no \<open>return\<close>) and throws
  at \<open>name in boxes\<close>, but the promise is settled already; the text of \<open>err\<close> is left out
  of the log line.
\<close>

definition checkBoxes :: "conn \<Rightarrow> getBoxes_reply \<Rightarrow> check_result \<times> string list" where
  "checkBoxes c reply =
     (case reply of
        Boxes_error \<Rightarrow> (Check_error, [''Error checking mailboxes''])
      | Boxes bs \<Rightarrow>
          (case foldl (check_name c bs) ([], [], []) (map fst (mailboxConfig c)) of
             (succ, fail, log) \<Rightarrow>
               (if succ \<noteq> [] then Check_resolved succ else Check_rejected fail, log)))"

text \<open>
  \<open>processMailboxes\<close> polls, in turn, the names that \<open>checkBoxes\<close> resolves with, and none
  when it rejects.
\<close>

definition polled :: "check_result \<Rightarrow> string list" where
  "polled r = (case r of Check_resolved names \<Rightarrow> names | _ \<Rightarrow> [])"

text \<open>
  The server of \<open>config.js\<close>, running; the names of the two children, which are Russian
  words in the source, are written in English.
\<close>

definition server_config :: conn where
  "server_config =
     \<lparr> delimiter = Some ''/'',
       mailboxConfig =
         [(''INBOX'', \<lparr> success = ''Processed'', failure = ''Unprocessed'' \<rparr>),
          (''Drafts'', \<lparr> success = ''Processed'', failure = ''Unprocessed'' \<rparr>)],
       isRunning = True \<rparr>"

definition inbox_only :: boxes where
  "inbox_only =
     [(''INBOX'', Mailbox (Some [(''Processed'', Mailbox None), (''Unprocessed'', Mailbox None)]))]"

section \<open>Body parsing (imap.js)\<close>

definition cat :: "re list \<Rightarrow> re" where
  "cat rs = foldr Cat rs Eps"

text \<open>\<open>/(\d{2})[-\/](\d{2})[-\/](\d{4})\s*(\d{2}:\d{2})?/\<close>\<close>

definition dateRe :: regexp where
  "dateRe =
     \<lparr> pattern = cat
         [Cap 1 (repeat 2 (Atom Digit)), Atom (OneOf ''-/''),
          Cap 2 (repeat 2 (Atom Digit)), Atom (OneOf ''-/''),
          Cap 3 (repeat 4 (Atom Digit)), Star Space,
          Opt (Cap 4 (cat [repeat 2 (Atom Digit), Atom (Ch CHR '':''), repeat 2 (Atom Digit)]))],
       anchored = False, ignoreCase = False \<rparr>"

text \<open>A group inside a template literal: a group that took no part prints as \<open>undefined\<close>.\<close>

definition group_text :: "captures \<Rightarrow> nat \<Rightarrow> string" where
  "group_text cs n = (case group cs n of None \<Rightarrow> ''undefined'' | Some t \<Rightarrow> t)"

definition group_truthy :: "captures \<Rightarrow> nat \<Rightarrow> bool" where
  "group_truthy cs n = (case group cs n of None \<Rightarrow> False | Some t \<Rightarrow> t \<noteq> [])"

text \<open>
  \<open>parseDate\<close>: \<open>None\<close> is NaN.  \<open>new Date(matched)\<close> is an object, so it is truthy and
  \<open>date !== 'Invalid Date'\<close> holds whatever the date is: a non-empty \<open>matched\<close> is returned.
\<close>

definition parseDate :: "string \<Rightarrow> string option" where
  "parseDate dateStr =
     (let matched = replace_first dateStr dateRe
            (\<lambda>m cs. group_text cs 3 @ ''-'' @ group_text cs 2 @ ''-'' @ group_text cs 1 @ ''T''
                     @ (if group_truthy cs 4 then group_text cs 4 @ '':00'' else ''23:59:59''))
      in if matched \<noteq> [] then Some matched else None)"

text \<open>The pieces of the pattern that \<open>parsePermittedAttributes\<close> builds for a key.\<close>

definition headRe :: re where
  "headRe = cat [Opt (Atom Space), Opt (Atom (OneOf ''-;:'')), Star Space]"

definition tailRe :: re where
  "tailRe = cat [Lazy Dot, Atom Space]"

definition typeRe :: "string \<Rightarrow> re" where
  "typeRe t =
     (if t = ''date'' then
        Cap 1 (cat [repeat 2 (Atom Digit), Atom (OneOf ''-/''), repeat 2 (Atom Digit),
                    Atom (OneOf ''-/''), repeat 4 (Atom Digit), Star Space,
                    Opt (Cap 2 (cat [Atom (OneOf ''012''), Atom Digit, Atom (Ch CHR '':''),
                                     Atom (OneOf ''012345''), Atom Digit]))])
      else if t = ''id'' then Cap 1 (cat [repeat 3 (Atom Alpha), repeat 12 (Atom Digit)])
      else Cap 1 (one_or_more Dot))"

text \<open>A key is taken as the literal text it is: the configured keys are plain words.\<close>

definition attrRe :: "string \<Rightarrow> string \<Rightarrow> regexp" where
  "attrRe key t =
     \<lparr> pattern = cat [lit key, headRe, typeRe t, tailRe], anchored = False, ignoreCase = True \<rparr>"

definition parsePermittedAttributes :: "rest_config \<Rightarrow> host \<Rightarrow> message \<Rightarrow> (string \<times> string) list" where
  "parsePermittedAttributes cfg hst message =
     (let text = (if body_text hst (body message) \<noteq> [] then body_text hst (body message)
                  else body message)
      in foldl
           (\<lambda>flds (key, t).
              case exec (attrRe key t) text of
                None \<Rightarrow> flds
              | Some (i, m, cs) \<Rightarrow>
                  if t = ''date'' then
                    (case parseDate (group_text cs 1) of
                       Some date \<Rightarrow> AList.update key date flds
                     | None \<Rightarrow> flds)
                  else AList.update key (group_text cs 1) flds)
           [] (permittedBodyAttributes cfg))"

text \<open>\<open>/^<\s*html[^>]*>/i\<close>\<close>

definition htmlRe :: regexp where
  "htmlRe =
     \<lparr> pattern = cat [Atom (Ch CHR ''<''), Star Space, lit ''html'', Star (NoneOf ''>''),
                      Atom (Ch CHR ''>'')],
       anchored = True, ignoreCase = True \<rparr>"

definition isHtml :: "string \<Rightarrow> bool" where
  "isHtml str = test htmlRe str"

text \<open>\<open>/\r?\n/g\<close>\<close>

definition newlineRe :: regexp where
  "newlineRe =
     \<lparr> pattern = cat [Opt (Atom (Ch (char_of (13::nat)))), Atom (Ch (char_of (10::nat)))],
       anchored = False, ignoreCase = False \<rparr>"

text \<open>One round of the \<open>forEach\<close> over the delimiters in the text branch.\<close>

definition cut_at :: "string \<Rightarrow> regexp \<Rightarrow> string" where
  "cut_at result delim = (case search result delim of Some i \<Rightarrow> take i result | None \<Rightarrow> result)"

definition removeComments :: "rest_config \<Rightarrow> host \<Rightarrow> string \<Rightarrow> string" where
  "removeComments cfg hst b =
     (let delimiters = commentDelimiters cfg;
          shouldTruncate = (truncateCommentsAfterDelimiter cfg \<and> delimiters \<noteq> [])
      in if \<not> shouldTruncate then b
         else if \<not> isHtml b then replace_all (foldl cut_at b delimiters) newlineRe ''<br>''
         else truncate_dom hst delimiters b)"

section \<open>Message dispatch (imap.js)\<close>

text \<open>
  \<open>getMessageBody\<close>: the fetch either fails or yields the parsed mail.  With a body
  (\<open>mail.html || mail.text\<close>) the promise resolves with the message object, which is the
  state here.  Without one \<open>message.body\<close> is \<open>undefined\<close>, on which \<open>cheerio.load\<close> throws in
  \<open>parsePermittedAttributes\<close>: the exception leaves the handler of the parser's \<open>end\<close>
  event and the promise is never settled.
\<close>

definition getMessageBody :: "rest_config \<Rightarrow> host \<Rightarrow> unit promise" where
  "getMessageBody cfg hst =
     (\<lambda>message. Imap_fetch (uid message)
        (\<lambda>r. case r of
                Fetch_error \<Rightarrow> Done (Rejected, message)
              | Fetched_empty \<Rightarrow> Uncaught
              | Fetched b atts \<Rightarrow>
                  (let m1 = message\<lparr>body := b\<rparr>;
                       m2 = m1\<lparr>parsedFields := Some (parsePermittedAttributes cfg hst m1)\<rparr>;
                       m3 = m2\<lparr>body := removeComments cfg hst (body m2)\<rparr>;
                       m4 = m3\<lparr>attachments := atts\<rparr>
                   in Done (Resolved (), m4))))"

text \<open>\<open>conn.getSuccessBoxName\<close> and \<open>conn.getFailureBoxName\<close>; the delimiter defaults to \<open>''\<close>.\<close>

definition getSuccessBoxName :: "conn \<Rightarrow> string \<Rightarrow> js_error + jv" where
  "getSuccessBoxName c boxName =
     (case map_of (mailboxConfig c) boxName of
        None \<Rightarrow> Inl TypeError
      | Some bc \<Rightarrow>
          Inr (JStr (boxName @ (case delimiter c of None \<Rightarrow> [] | Some d \<Rightarrow> d) @ success bc)))"

definition getFailureBoxName :: "conn \<Rightarrow> string \<Rightarrow> js_error + jv" where
  "getFailureBoxName c boxName =
     (case map_of (mailboxConfig c) boxName of
        None \<Rightarrow> Inl TypeError
      | Some bc \<Rightarrow>
          Inr (JStr (boxName @ (case delimiter c of None \<Rightarrow> [] | Some d \<Rightarrow> d) @ failure bc)))"

text \<open>
  \<open>moveMessageFn(conn, boxName)(message)\<close>: the \<open>Promise.reject('No box name')\<close> for a
  missing name is dropped by the source, and the move is issued all the same.
\<close>

definition moveMessageFn :: "jv \<Rightarrow> jv promise" where
  "moveMessageFn boxName =
     (\<lambda>message. Imap_move (uid message) boxName
        (\<lambda>err. if err then Done (Rejected, message)
                else Done (Resolved (JNum (int (uid message))), message)))"

text \<open>
  What the upload of the raw message resolves with.  An error object is written as the
  string \<open>Error\<close>.
\<close>

definition eml_result :: "jv \<Rightarrow> nat \<Rightarrow> string \<Rightarrow> eml_reply \<Rightarrow> jv" where
  "eml_result iid u filename r =
     (case r of
        Eml_fetch_error \<Rightarrow> iid
      | Eml_stream_error \<Rightarrow> iid
      | Eml_response Net_error \<Rightarrow> JStr ''Error''
      | Eml_response (Response st b) \<Rightarrow>
          if st \<noteq> 200
          then JStr (''Error saving attachment '' @ [CHR 0x27] @ filename @ [CHR 0x27]
                     @ '' for msg uid:'' @ show_nat u)
          else (case b of
                  Unparsable t \<Rightarrow> JStr ''Error''
                | Parsed result \<Rightarrow>
                    (case js_get result ''ReturnCode'' of
                       None \<Rightarrow> JStr ''Error''
                     | Some rc \<Rightarrow> if rc \<noteq> JNum 0 then JNull else iid)))"

definition saveEmlAsAttachment :: "rest_config \<Rightarrow> jv \<Rightarrow> jv promise" where
  "saveEmlAsAttachment cfg iid =
     (if \<not> joinOriginalAsEml cfg then resolve JUndef
      else (\<lambda>message.
        case getModelPath cfg ''Issues'' of
          Inl e \<Rightarrow> Uncaught
        | Inr path \<Rightarrow>
            (let filename = show_nat (uid message) @ ''-message.eml''
             in Eml_upload (uid message)
                  \<lparr> upload_uri = path @ ''/'' @ to_string iid @ ''/attachments'',
                    upload_name = filename, upload_type = ''message/rfc822'' \<rparr>
                  (\<lambda>r. Done (Resolved (eml_result iid (uid message) filename r), message)))))"

datatype entity = ZIssue | ZComment

text \<open>
  \<open>saveMessageAttachments\<close>: an attachment without decoded content makes \<open>BufferStream\<close>
  throw before its request is made; the promise resolves whatever the uploads do.
\<close>

definition attachment_uploads :: "rest_config \<Rightarrow> entity \<Rightarrow> jv \<Rightarrow> attachment list \<Rightarrow> upload list" where
  "attachment_uploads cfg ty ident' atts =
     (case getModelPath cfg (case ty of ZIssue \<Rightarrow> ''Issues'' | ZComment \<Rightarrow> ''Comments'') of
        Inl e \<Rightarrow> []
      | Inr path \<Rightarrow>
          map (\<lambda>a. \<lparr> upload_uri = path @ ''/'' @ to_string ident' @ ''/attachments'',
                      upload_name = fileName a, upload_type = contentType a \<rparr>)
              (filter (\<lambda>a. content a \<noteq> None) atts))"

definition saveMessageAttachments :: "rest_config \<Rightarrow> entity \<Rightarrow> jv \<Rightarrow> unit promise" where
  "saveMessageAttachments cfg ty ident' =
     (if \<not> joinAttachments cfg then resolve ()
      else (\<lambda>message.
        if attachments message = [] then Done (Resolved (), message)
        else Uploads (attachment_uploads cfg ty ident' (attachments message))
               (Done (Resolved (), message))))"

text \<open>
  What a callback does with the result of \<open>getPersonIdByEmail\<close>: returned from a \<open>then\<close>
  callback, \<open>undefined\<close> resolves the derived promise with \<open>undefined\<close>.
\<close>

definition returned :: "js_error + jv promise option \<Rightarrow> jv promise" where
  "returned r = (case r of Inl e \<Rightarrow> reject | Inr None \<Rightarrow> resolve JUndef | Inr (Some p) \<Rightarrow> p)"

text \<open>
  The chain that posts a comment, saves the attachments and moves the message; the source
  has it twice, ending in \<open>finally(() => Promise.reject())\<close> for an unknown sender and in
  \<open>finally(() => Promise.resolve())\<close> for a known one.
\<close>

definition postComment ::
  "rest_config \<Rightarrow> host \<Rightarrow> jv promise \<Rightarrow> jv promise \<Rightarrow> comment \<Rightarrow> js_error + jv promise" where
  "postComment cfg hst moveMessageOnSuccess moveMessageOnFailure c =
     (case createComment cfg hst c of
        Inl e \<Rightarrow> Inl e
      | Inr created \<Rightarrow>
          Inr (catch_p
                 (then_p
                    (then_p created (\<lambda>commentId. saveMessageAttachments cfg ZComment commentId))
                    (\<lambda>_. catch_p moveMessageOnSuccess (resolve JUndef)))
                 moveMessageOnFailure))"

text \<open>
  The chain that \<open>doCreateComment\<close> hangs on the promise of the person lookup.
\<close>

definition comment_chain ::
  "rest_config \<Rightarrow> host \<Rightarrow> jv promise \<Rightarrow> jv promise \<Rightarrow> comment \<Rightarrow> jv promise \<Rightarrow> jv promise" where
  "comment_chain cfg hst moveMessageOnSuccess moveMessageOnFailure cmt lookup =
     finally_p
       (then_p
          (then_p
             (then_p
                (catch_p lookup
                   (callback
                      (case postComment cfg hst moveMessageOnSuccess moveMessageOnFailure cmt of
                         Inl e \<Rightarrow> Inl e
                       | Inr posted \<Rightarrow> Inr (finally_p posted (reject :: jv promise)))))
                (\<lambda>author.
                   catch_p
                     (then_p (with_message (checkSpamByPersonId cfg author)) (\<lambda>a. resolve a))
                     (finally_p moveMessageOnFailure (reject :: jv promise))))
             (\<lambda>author. resolve (cmt\<lparr>authorId := author\<rparr>)))
          (\<lambda>cmt'. callback
             (case postComment cfg hst moveMessageOnSuccess moveMessageOnFailure cmt' of
                Inl e \<Rightarrow> Inl e
              | Inr posted \<Rightarrow> Inr (finally_p posted (resolve JUndef)))))
       (resolve JUndef)"

text \<open>
  The callback that \<open>doCreateComment\<close> passes to \<open>then\<close> after \<open>getMessageBody\<close>: it throws
  when the message has no from-header, when \<open>getPersonIdByEmail\<close> throws, and when that
  returns \<open>undefined\<close>, on which \<open>catch\<close> cannot be called.
\<close>

definition comment_callback ::
  "rest_config \<Rightarrow> host \<Rightarrow> jv promise \<Rightarrow> jv promise \<Rightarrow> jv \<Rightarrow> message \<Rightarrow> js_error + jv promise" where
  "comment_callback cfg hst moveMessageOnSuccess moveMessageOnFailure iss message =
     (case header_first message ''from'' of
        Inl e \<Rightarrow> Inl e
      | Inr email \<Rightarrow>
     (case js_get iss ''Id'' of
        None \<Rightarrow> Inl TypeError
      | Some issue_Id \<Rightarrow>
     (let cmt = \<lparr> authorId = JNull, issueId = issue_Id, comment_description = body message \<rparr>
      in case getPersonIdByEmail cfg email of
           Inl e \<Rightarrow> Inl e
         | Inr None \<Rightarrow> Inl TypeError
         | Inr (Some lookup) \<Rightarrow>
             Inr (comment_chain cfg hst moveMessageOnSuccess moveMessageOnFailure cmt lookup))))"

definition doCreateComment ::
  "rest_config \<Rightarrow> host \<Rightarrow> conn \<Rightarrow> string \<Rightarrow> jv \<Rightarrow> js_error + jv promise" where
  "doCreateComment cfg hst c boxName iss =
     (case getSuccessBoxName c boxName of
        Inl e \<Rightarrow> Inl e
      | Inr successBox \<Rightarrow>
     (case getFailureBoxName c boxName of
        Inl e \<Rightarrow> Inl e
      | Inr failureBox \<Rightarrow>
     (let moveMessageOnSuccess = moveMessageFn successBox;
          moveMessageOnFailure = moveMessageFn failureBox
      in Inr (catch_p
           (then_p (getMessageBody cfg hst)
              (\<lambda>_. with_message (\<lambda>message. callback
                 (comment_callback cfg hst moveMessageOnSuccess moveMessageOnFailure iss message))))
           (resolve JUndef)))))"

text \<open>
  The chain that follows \<open>createIssue\<close>; the two copies in the source differ in the handler
  of a failed creation, which is the parameter \<open>onError\<close>.
\<close>

definition postIssue ::
  "rest_config \<Rightarrow> host \<Rightarrow> jv promise \<Rightarrow> jv promise \<Rightarrow> jv \<Rightarrow> message \<Rightarrow> js_error + jv promise" where
  "postIssue cfg hst moveMessageOnSuccess onError person message =
     (case makeIssue message of
        Inl e \<Rightarrow> Inl e
      | Inr made \<Rightarrow>
     (case createIssue cfg hst (made\<lparr>ident := person\<rparr>) of
        Inl e \<Rightarrow> Inl e
      | Inr created \<Rightarrow>
          Inr (then_p
                 (then_p
                    (then_p (catch_p created onError)
                       (\<lambda>iid. saveEmlAsAttachment cfg iid))
                    (\<lambda>iid. saveMessageAttachments cfg ZIssue iid))
                 (\<lambda>_. moveMessageOnSuccess))))"

text \<open>
  The chain of \<open>doCreateIssue\<close>; \<open>lookup\<close> is what the callback
  \<open>() => rest.getPersonIdByEmail(email)\<close> gives to the \<open>then\<close> that calls it.
\<close>

definition issue_chain ::
  "rest_config \<Rightarrow> host \<Rightarrow> jv promise \<Rightarrow> jv promise \<Rightarrow> jv promise \<Rightarrow> jv promise" where
  "issue_chain cfg hst moveMessageOnSuccess moveMessageOnFailure lookup =
     then_p
       (then_p
          (catch_p
             (then_p (getMessageBody cfg hst) (\<lambda>_. lookup))
             (if createSystemIssue cfg then
                with_message (\<lambda>message. callback
                  (case postIssue cfg hst moveMessageOnSuccess
                          (finally_p moveMessageOnFailure (reject :: jv promise)) JNull message of
                     Inl e \<Rightarrow> Inl e
                   | Inr posted \<Rightarrow> Inr (finally_p posted (reject :: jv promise))))
              else finally_p moveMessageOnFailure (reject :: jv promise)))
          (\<lambda>author.
             then_p
               (catch_p (with_message (checkSpamByPersonId cfg author))
                  (finally_p moveMessageOnFailure (reject :: jv promise)))
               (\<lambda>a. resolve a)))
       (\<lambda>person. with_message (\<lambda>message. callback
          (postIssue cfg hst moveMessageOnSuccess
             (then_p moveMessageOnFailure (\<lambda>_. reject)) person message)))"

definition doCreateIssue ::
  "rest_config \<Rightarrow> host \<Rightarrow> conn \<Rightarrow> string \<Rightarrow> message \<Rightarrow> js_error + jv promise" where
  "doCreateIssue cfg hst c boxName message0 =
     (case header_first message0 ''from'' of
        Inl e \<Rightarrow> Inl e
      | Inr email \<Rightarrow>
     (case getSuccessBoxName c boxName of
        Inl e \<Rightarrow> Inl e
      | Inr successBox \<Rightarrow>
     (case getFailureBoxName c boxName of
        Inl e \<Rightarrow> Inl e
      | Inr failureBox \<Rightarrow>
          Inr (issue_chain cfg hst (moveMessageFn successBox) (moveMessageFn failureBox)
                 (returned (getPersonIdByEmail cfg email))))))"


section \<open>The messages of one mailbox (imap.js, processBox)\<close>
















section \<open>The words of the specification\<close>


text \<open>
  A valid ISO 8601 local date and time \<open>YYYY-MM-DDTHH:MM:SS\<close>: digits, a month from 1 to 12, a
  day from 1 to 31, and a time up to 24:59:60, which is as much as any reading allows.
\<close>

definition num2 :: "char \<Rightarrow> char \<Rightarrow> nat" where
  "num2 a b = 10 * (code_unit a - 48) + (code_unit b - 48)"

fun iso_local :: "string \<Rightarrow> bool" where
  "iso_local [y1, y2, y3, y4, s1, m1, m2, s2, d1, d2, t, h1, h2, c1, n1, n2, c2, e1, e2] =
     (list_all is_digit [y1, y2, y3, y4, m1, m2, d1, d2, h1, h2, n1, n2, e1, e2]
      \<and> s1 = CHR ''-'' \<and> s2 = CHR ''-'' \<and> t = CHR ''T'' \<and> c1 = CHR '':'' \<and> c2 = CHR '':''
      \<and> 1 \<le> num2 m1 m2 \<and> num2 m1 m2 \<le> 12 \<and> 1 \<le> num2 d1 d2 \<and> num2 d1 d2 \<le> 31
      \<and> num2 h1 h2 \<le> 24 \<and> num2 n1 n2 \<le> 59 \<and> num2 e1 e2 \<le> 60)"
| "iso_local s = False"






text \<open>A body that begins with \<open><html\<close>, whatever the case of the letters.\<close>

definition begins_html :: "string \<Rightarrow> bool" where
  "begins_html s = (map to_lower (take 5 s) = ''<html'')"

text \<open>
  Truncation, as the specification puts it: for each delimiter in turn, the current
  result is cut at the index of its first match, if there is one.
\<close>

fun truncated :: "string \<Rightarrow> regexp list \<Rightarrow> string" where
  "truncated b [] = b"
| "truncated b (d # ds) =
     (case search b d of None \<Rightarrow> truncated b ds | Some i \<Rightarrow> truncated (take i b) ds)"

text \<open>
  A spam query that fails: no response, a status other than 200, a body that does not
  parse (the empty string among them), or a parsed body that is empty: \<open>null\<close>, or an object
  without rows in \<open>results\<close>.
\<close>

definition no_results :: "jv \<Rightarrow> bool" where
  "no_results v =
     (case js_get v ''results'' of
        None \<Rightarrow> True
      | Some rows \<Rightarrow> rows = JUndef \<or> rows = JNull \<or> rows = JArr [])"

fun query_failed :: "http_reply \<Rightarrow> bool" where
  "query_failed Net_error = True"
| "query_failed (Response st (Unparsable t)) = True"
| "query_failed (Response st (Parsed v)) = (st \<noteq> 200 \<or> no_results v)"

section \<open>The configuration of config.js and some inputs\<close>

text \<open>
  The configuration that the repository ships, with the mailbox names and the delimiters
  that are within the code units modelled here.
\<close>

definition restConfig :: rest_config where
  "restConfig =
     \<lparr> protocol = ''http'', host = ''192.168.102.105'', port = 16485, url = ''SM/9/rest'',
       paths = [(''Issues'', ''zIssues''), (''Persons'', ''zPersons''), (''Comments'', ''zComments'')],
       dbQueryUri = ''http://192.168.102.105:26485/search'',
       maxQueryMessages = 1,
       createSystemIssue = False,
       permittedBodyAttributes =
         [(''requiredOn'', ''date''), (''agreementId'', ''id''), (''phaseId'', ''id''),
          (''teamId'', ''id'')],
       defaultIssueAttrs =
         [(''authorId'', JStr ''PRS000000000001''), (''statusId'', JStr ''STS000000000001''),
          (''categoryId'', JStr ''CTG000000000101''), (''priorityId'', JStr ''PRT000000000003''),
          (''sourceId'', JStr ''SRC000000000003'')],
       joinOriginalAsEml = True,
       joinAttachments = True,
       truncateCommentsAfterDelimiter = True,
       commentDelimiters =
         [\<lparr> pattern = cat [Atom (Ch CHR ''/''), Atom (Ch CHR ''/''), one_or_more (Ch CHR ''-'')],
            anchored = False, ignoreCase = False \<rparr>,
          \<lparr> pattern = lit ''Best regards'', anchored = False, ignoreCase = False \<rparr>],
       spam =
         \<lparr> timeSpan = 30, maxNumOfIssues = 5,
           headers = [''auto-generated'', ''auto-replied'', ''auto-notified''],
           dontCheckAuthors = [''PRS000000000001''] \<rparr> \<rparr>"

text \<open>
  A host on which \<open>cheerio\<close> finds no \<open>body\<close> element in a document, as in a text without
  markup, and on which \<open>Date.parse\<close> is at 0 on the first second of 1970, as it is in UTC.
  What the DOM branch of \<open>removeComments\<close> gives on this host is left open: it is the
  parameter.
\<close>

definition plain_host :: "(regexp list \<Rightarrow> string \<Rightarrow> string) \<Rightarrow> host" where
  "plain_host tdom =
     \<lparr> Date_parse =
         (\<lambda>s. if s = ''1970-01-01T00:00:00'' then Some 0
              else if s = ''2016-12-25T10:30:00'' then Some 1482661800000
              else None),
       now = JStr ''2016-02-12T07:45:15.000Z'',
       body_text = (\<lambda>s. []),
       truncate_dom = tdom \<rparr>"

definition auto_reply :: message where
  "auto_reply =
     \<lparr> uid = 5,
       header = [(''subject'', [''Out of office'']), (''from'', [''Alice <alice@x>'']),
                 (''auto-replied'', [''yes''])],
       body = [], parsedFields = None, attachments = [] \<rparr>"

definition plain_message :: message where
  "plain_message =
     \<lparr> uid = 6,
       header = [(''subject'', [''Printer broken'']), (''from'', [''Alice <alice@x>''])],
       body = [], parsedFields = None, attachments = [] \<rparr>"

text \<open>
  A REST server that knows the sender, creates what it is asked to create, and gives the
  offset \<open>+03:00\<close> for every person.
\<close>

definition moscow :: env where
  "moscow =
     \<lparr> http = (\<lambda>opts.
         if uri opts = dbQueryUri restConfig
         then Response 200 (Parsed (JObj [(''results'', JArr [JObj [(''OFFSET'', JStr ''+03:00'')]])]))
         else Response 200 (Parsed (JObj [(''ReturnCode'', JNum 0),
                (''Messages'', JArr [JStr ''Created SRQ000000000400'']),
                (''@count'', JNum 1), (''ResourceName'', JStr ''ZPerson''),
                (''content'', JArr [JObj [(''ZPerson'', JObj [(''Id'', JStr ''PRS000000000042'')])]])]))),
       imap_fetch = (\<lambda>u. Fetch_error),
       imap_move = (\<lambda>u b. False),
       eml_upload = (\<lambda>u up. Eml_fetch_error) \<rparr>"

definition alice_issue :: issue where
  "alice_issue =
     \<lparr> ident = JStr ''PRS000000000042'', title = JStr ''Printer broken'',
       description = ''Printer dead'', externalId = 6 \<rparr>"

text \<open>A message whose parsed fields are the first second of 1970 and a later date.\<close>

definition dated_message :: message where
  "dated_message =
     plain_message\<lparr> body := ''Printer dead'',
       parsedFields := Some [(''requiredOn'', ''1970-01-01T00:00:00''),
                             (''closedOn'', ''2016-12-25T10:30:00'')] \<rparr>"

text \<open>
  Scenario S2 of the specification: a reply to an existing issue from a sender whom the
  REST server does not know.
\<close>

definition reply_message :: message where
  "reply_message =
     \<lparr> uid = 7,
       header = [(''subject'', [''Re: SRQ000000000354 update'']), (''from'', [''Bob <bob@x>''])],
       body = [], parsedFields = None, attachments = [] \<rparr>"


definition issue354 :: jv where
  "issue354 = JObj [(''Id'', JStr ''SRQ000000000354'')]"

definition unknown_sender :: env where
  "unknown_sender =
     \<lparr> http = (\<lambda>opts.
         if verb opts = ''GET''
         then Response 200 (Parsed (JObj [(''ReturnCode'', JNum 0), (''@count'', JNum 0)]))
         else Response 200 (Parsed (JObj [(''ReturnCode'', JNum 0),
                (''Messages'', JArr [JStr ''Created CMT000000000077''])]))),
       imap_fetch = (\<lambda>u. Fetched ''please check\<newline>//-----\<newline>quoted prior email'' []),
       imap_move = (\<lambda>u b. False),
       eml_upload = (\<lambda>u up. Eml_fetch_error) \<rparr>"


definition no_delimiters :: rest_config where
  "no_delimiters = restConfig\<lparr>commentDelimiters := []\<rparr>"

definition offline :: env where
  "offline =
     \<lparr> http = (\<lambda>opts. Net_error), imap_fetch = (\<lambda>u. Fetch_error),
       imap_move = (\<lambda>u b. False), eml_upload = (\<lambda>u up. Eml_fetch_error) \<rparr>"

section \<open>Properties\<close>

text \<open>
  C2.  The claim: a configured name is in \<open>passed[]\<close> exactly when it is at the root of the
  hierarchy with both configured children under it, so a configured mailbox that the
  hierarchy lacks is in \<open>failed[]\<close> and is not polled.  The code sends a name that is not in
  the hierarchy through \<open>logCheckResult(name, true)\<close>: with \<open>Drafts\<close> missing and \<open>INBOX\<close>
  complete, \<open>checkBoxes\<close> resolves with both names, logs nothing, and \<open>Drafts\<close> is polled.
\<close>

theorem checkBoxes_missing_mailbox_passes:
  "checkBoxes server_config (Boxes inbox_only) = (Check_resolved [''INBOX'', ''Drafts''], [])
   \<and> \<not> has_key ''Drafts'' inbox_only
   \<and> ''Drafts'' \<in> set (polled (fst (checkBoxes server_config (Boxes inbox_only))))"
  by (simp add: checkBoxes_def check_name_def logCheckResult_def child_in_def has_key_def
      box_named_def object_prototype_def server_config_def inbox_only_def polled_def)

subsection \<open>Regular expressions\<close>






























subsection \<open>Runs of promises\<close>

lemma after_simps [simp]:
  "after evs (evs', r) = (evs @ evs', r)"
  "after [] x = x"
  "after evs (after evs' x) = after (evs @ evs') x"
  "fst (after evs x) = evs @ fst x"
  "snd (after evs x) = snd x"
  by (simp_all add: after_def)

lemma run_bind:
  "run_task e (bind_task t f) =
     (case run_task e t of
        (evs, None) \<Rightarrow> (evs, None)
      | (evs, Some a) \<Rightarrow> after evs (run_task e (f a)))"
  by (induction t) (auto simp: after_def split: prod.splits option.splits)

lemma run_then:
  "run_task e (then_p p f m) =
     (case run_task e (p m) of
        (evs, None) \<Rightarrow> (evs, None)
      | (evs, Some (Resolved v, m')) \<Rightarrow> after evs (run_task e (f v m'))
      | (evs, Some (Rejected, m')) \<Rightarrow> (evs, Some (Rejected, m')))"
  by (auto simp: then_p_def run_bind split: prod.splits option.splits settle.splits)

lemma run_catch:
  "run_task e (catch_p p h m) =
     (case run_task e (p m) of
        (evs, None) \<Rightarrow> (evs, None)
      | (evs, Some (Resolved v, m')) \<Rightarrow> (evs, Some (Resolved v, m'))
      | (evs, Some (Rejected, m')) \<Rightarrow> after evs (run_task e (h m')))"
  by (auto simp: catch_p_def run_bind split: prod.splits option.splits settle.splits)

lemma run_finally:
  "run_task e (finally_p p cb m) =
     (case run_task e (p m) of
        (evs, None) \<Rightarrow> (evs, None)
      | (evs, Some (s, m')) \<Rightarrow>
          (case run_task e (cb m') of
             (evs', None) \<Rightarrow> (evs @ evs', None)
           | (evs', Some (Resolved v, m'')) \<Rightarrow> (evs @ evs', Some (s, m''))
           | (evs', Some (Rejected, m'')) \<Rightarrow> (evs @ evs', Some (Rejected, m''))))"
  by (auto simp: finally_p_def run_bind split: prod.splits option.splits settle.splits)

lemma run_basic [simp]:
  "run_task e (resolve v m) = ([], Some (Resolved v, m))"
  "run_task e (reject m) = ([], Some (Rejected, m))"
  "run_task e (uncaught m) = ([], None)"
  "run_task e (request opts k m) = after [Ev_request opts] (run_task e (k (http e opts) m))"
  "run_task e (with_message f m) = run_task e (f m m)"
  by (simp_all add: resolve_def reject_def uncaught_def request_def with_message_def
      split: prod.splits)

lemma run_settle_with [simp]:
  "run_task e (settle_with r m) = ([], map_option (\<lambda>s. (s, m)) r)"
  by (cases r rule: option.exhaust; simp add: settle_with_def split: settle.splits)

lemma run_callback [simp]:
  "run_task e (callback (Inl err) m) = ([], Some (Rejected, m))"
  "run_task e (callback (Inr p) m) = run_task e (p m)"
  by (simp_all add: callback_def)

subsection \<open>The spam gate\<close>

text \<open>
  C6.  For a person-id in \<open>spam.dontCheckAuthors\<close> and any message, whatever its headers,
  \<open>checkSpamByPersonId\<close> resolves with the person-id at once: the task is done without a
  request, so the run has no event and the spam database is not queried.
\<close>

theorem dontCheckAuthors_no_query:
  assumes "p \<in> set (dontCheckAuthors (spam cfg))"
  shows "checkSpamByPersonId cfg (JStr p) message m = Done (Resolved (JStr p), m)
         \<and> run_task e (checkSpamByPersonId cfg (JStr p) message m) = ([], Some (Resolved (JStr p), m))"
  using assms by (simp add: checkSpamByPersonId_def resolve_def)


theorem dontCheckAuthors_no_query_witness:
  "''PRS000000000001'' \<in> set (dontCheckAuthors (spam restConfig))
   \<and> hasSpamHeaders restConfig auto_reply
   \<and> run_task offline (checkSpamByPersonId restConfig (JStr ''PRS000000000001'') auto_reply auto_reply)
       = ([], Some (Resolved (JStr ''PRS000000000001''), auto_reply))"
proof -
  have h: "''PRS000000000001'' \<in> set (dontCheckAuthors (spam restConfig))"
    by (simp add: restConfig_def)
  have "hasSpamHeaders restConfig auto_reply"
    by (simp add: hasSpamHeaders_def restConfig_def auto_reply_def has_key_def object_prototype_def)
  with h dontCheckAuthors_no_query [OF h, of auto_reply auto_reply offline] show ?thesis
    by simp
qed

text \<open>
  C7.  For a person-id that is not in \<open>spam.dontCheckAuthors\<close> and a message with none of the
  configured spam headers, when the spam query fails (no response, a status other than
  200, a body that does not parse, or an empty body), \<open>checkSpamByPersonId\<close> makes that one
  query and resolves with the person-id.
\<close>

theorem spam_query_fail_open:
  assumes "personId \<notin> JStr ` set (dontCheckAuthors (spam cfg))"
    and "\<not> hasSpamHeaders cfg message"
    and "query_failed (http e (dbQuery cfg (spamQuery cfg personId)))"
  shows "run_task e (checkSpamByPersonId cfg personId message m)
           = ([Ev_request (dbQuery cfg (spamQuery cfg personId))], Some (Resolved personId, m))"
proof -
  have "\<not> spam_verdict cfg (http e (dbQuery cfg (spamQuery cfg personId)))"
    using assms(3)
    by (cases "http e (dbQuery cfg (spamQuery cfg personId))" rule: query_failed.cases)
      (auto simp: spam_verdict_def no_results_def split: option.splits)
  with assms(1,2) show ?thesis
    by (simp add: checkSpamByPersonId_def request_def resolve_def)
qed

theorem spam_query_fail_open_witness:
  "JStr ''PRS000000000042'' \<notin> JStr ` set (dontCheckAuthors (spam restConfig))
   \<and> \<not> hasSpamHeaders restConfig plain_message
   \<and> query_failed (http offline (dbQuery restConfig (spamQuery restConfig (JStr ''PRS000000000042''))))
   \<and> run_task offline (checkSpamByPersonId restConfig (JStr ''PRS000000000042'') plain_message plain_message)
       = ([Ev_request (dbQuery restConfig (spamQuery restConfig (JStr ''PRS000000000042'')))],
          Some (Resolved (JStr ''PRS000000000042''), plain_message))"
proof -
  have a: "JStr ''PRS000000000042'' \<notin> JStr ` set (dontCheckAuthors (spam restConfig))"
    by (simp add: restConfig_def)
  have b: "\<not> hasSpamHeaders restConfig plain_message"
    by (simp add: hasSpamHeaders_def restConfig_def plain_message_def has_key_def object_prototype_def)
  have c: "query_failed (http offline (dbQuery restConfig (spamQuery restConfig (JStr ''PRS000000000042''))))"
    by (simp add: offline_def)
  from a b c spam_query_fail_open [OF a b c, of plain_message] show ?thesis
    by simp
qed

subsection \<open>Truncation of the body\<close>

lemma foldl_cut_at_truncated: "foldl cut_at b ds = truncated b ds"
  by (induction ds arbitrary: b) (auto simp: cut_at_def split: option.splits)

lemma truncated_no_match:
  "\<forall>d \<in> set ds. search b d = None \<Longrightarrow> truncated b ds = b"
  by (induction ds) auto

lemma truncated_skip:
  "\<forall>d \<in> set ds1. search b d = None \<Longrightarrow> truncated b (ds1 @ ds) = truncated b ds"
  by (induction ds1) auto

lemma truncated_prefix: "\<exists>n \<le> length b. truncated b ds = take n b"
proof (induction ds arbitrary: b)
  case Nil
  show ?case by (intro exI [of _ "length b"]) simp
next
  case (Cons d ds)
  show ?case
  proof (cases "search b d")
    case None
    with Cons.IH [of b] show ?thesis by simp
  next
    case (Some i)
    from Cons.IH [of "take i b"] obtain n where "n \<le> length (take i b)"
      "truncated (take i b) ds = take n (take i b)" by blast
    then have "n \<le> length b" "n \<le> i" "truncated (take i b) ds = take n b"
      by (simp_all add: min_def split: if_splits)
    with Some show ?thesis
      by (intro exI [of _ n]) simp
  qed
qed

lemma truncated_first_match:
  "search b d = Some i \<Longrightarrow> \<exists>n \<le> i. truncated b (d # ds) = take n b"
proof -
  assume s: "search b d = Some i"
  from truncated_prefix [of "take i b" ds] obtain n where "n \<le> length (take i b)"
    "truncated (take i b) ds = take n (take i b)" by blast
  then have "n \<le> i" "truncated (take i b) ds = take n b"
    by (simp_all add: min_def split: if_splits)
  with s show ?thesis
    by (intro exI [of _ n]) simp
qed

lemma match_here_newline_None:
  "x \<noteq> char_of (10::nat) \<Longrightarrow> x \<noteq> char_of (13::nat) \<Longrightarrow> match_here newlineRe (x # xs) = None"
  by (simp add: match_here_def newlineRe_def cat_def)

lemma replace_all_no_newline:
  "\<forall>c \<in> set b. c \<noteq> char_of (10::nat) \<and> c \<noteq> char_of (13::nat) \<Longrightarrow> replace_all b newlineRe rep = b"
proof (induction b)
  case Nil
  show ?case by (simp add: match_here_def newlineRe_def cat_def)
next
  case (Cons x xs)
  then show ?case by (simp add: match_here_newline_None)
qed


text \<open>
  C8, as amended.  When \<open>truncateCommentsAfterDelimiter\<close> is set, the list of delimiters is
  not empty and the body fails the test \<open>isHtml\<close> of the source (\<open>/^<\s*html[^>]*>/i\<close>),
  \<open>removeComments\<close> returns the body cut at the first match of each delimiter in turn, with
  every \<open>\r?\n\<close> replaced by \<open><br>\<close> at the end.  So when no delimiter matches the body,
  only the newlines are replaced, and a body without newlines is returned as it is; the
  result is always a prefix of the body with its newlines replaced; and the cut is at or
  before the first match of the first delimiter that matches the body.  When the flag is
  not set or the list of delimiters is empty, every body is returned as it is, newlines
  included.  A body that passes \<open>isHtml\<close> goes through the DOM branch.
\<close>

theorem removeComments_text_mode:
  "(truncateCommentsAfterDelimiter cfg \<and> commentDelimiters cfg \<noteq> [] \<and> \<not> isHtml b \<longrightarrow>
      removeComments cfg hst b = replace_all (truncated b (commentDelimiters cfg)) newlineRe ''<br>''
      \<and> ((\<forall>d \<in> set (commentDelimiters cfg). search b d = None) \<longrightarrow>
           removeComments cfg hst b = replace_all b newlineRe ''<br>'')
      \<and> ((\<forall>d \<in> set (commentDelimiters cfg). search b d = None)
           \<and> (\<forall>c \<in> set b. c \<noteq> char_of (10::nat) \<and> c \<noteq> char_of (13::nat)) \<longrightarrow>
           removeComments cfg hst b = b)
      \<and> (\<exists>n \<le> length b. removeComments cfg hst b = replace_all (take n b) newlineRe ''<br>'')
      \<and> (\<forall>ds1 d ds2 i. commentDelimiters cfg = ds1 @ d # ds2
             \<and> (\<forall>d' \<in> set ds1. search b d' = None) \<and> search b d = Some i \<longrightarrow>
           (\<exists>n \<le> i. removeComments cfg hst b = replace_all (take n b) newlineRe ''<br>'')))
   \<and> (\<not> truncateCommentsAfterDelimiter cfg \<or> commentDelimiters cfg = [] \<longrightarrow>
        removeComments cfg hst b = b)
   \<and> (truncateCommentsAfterDelimiter cfg \<and> commentDelimiters cfg \<noteq> [] \<and> isHtml b \<longrightarrow>
        removeComments cfg hst b = truncate_dom hst (commentDelimiters cfg) b)"
proof (intro conjI impI)
  assume on: "truncateCommentsAfterDelimiter cfg \<and> commentDelimiters cfg \<noteq> [] \<and> \<not> isHtml b"
  have r: "removeComments cfg hst b
             = replace_all (truncated b (commentDelimiters cfg)) newlineRe ''<br>''"
    using on by (simp add: removeComments_def foldl_cut_at_truncated)
  then show "removeComments cfg hst b
             = replace_all (truncated b (commentDelimiters cfg)) newlineRe ''<br>''" .
  show "removeComments cfg hst b = replace_all b newlineRe ''<br>''"
    if "\<forall>d \<in> set (commentDelimiters cfg). search b d = None"
    using r that by (simp add: truncated_no_match)
  show "removeComments cfg hst b = b"
    if "(\<forall>d \<in> set (commentDelimiters cfg). search b d = None)
        \<and> (\<forall>c \<in> set b. c \<noteq> char_of (10::nat) \<and> c \<noteq> char_of (13::nat))"
    using r that by (simp add: truncated_no_match replace_all_no_newline)
  show "\<exists>n \<le> length b. removeComments cfg hst b = replace_all (take n b) newlineRe ''<br>''"
    using r truncated_prefix [of b "commentDelimiters cfg"] by auto
  show "\<forall>ds1 d ds2 i. commentDelimiters cfg = ds1 @ d # ds2
             \<and> (\<forall>d' \<in> set ds1. search b d' = None) \<and> search b d = Some i \<longrightarrow>
           (\<exists>n \<le> i. removeComments cfg hst b = replace_all (take n b) newlineRe ''<br>'')"
  proof (intro allI impI)
    fix ds1 d ds2 i
    assume h: "commentDelimiters cfg = ds1 @ d # ds2
             \<and> (\<forall>d' \<in> set ds1. search b d' = None) \<and> search b d = Some i"
    then have "truncated b (commentDelimiters cfg) = truncated b (d # ds2)"
      by (simp add: truncated_skip)
    moreover from h have "search b d = Some i" by simp
    from truncated_first_match [OF this, of ds2]
    have "\<exists>n \<le> i. truncated b (d # ds2) = take n b" .
    ultimately show "\<exists>n \<le> i. removeComments cfg hst b = replace_all (take n b) newlineRe ''<br>''"
      using r by auto
  qed
next
  assume "\<not> truncateCommentsAfterDelimiter cfg \<or> commentDelimiters cfg = []"
  then show "removeComments cfg hst b = b"
    by (auto simp: removeComments_def)
next
  assume "truncateCommentsAfterDelimiter cfg \<and> commentDelimiters cfg \<noteq> [] \<and> isHtml b"
  then show "removeComments cfg hst b = truncate_dom hst (commentDelimiters cfg) b"
    by (simp add: removeComments_def)
qed

theorem removeComments_text_mode_witness:
  "\<forall>hst. truncateCommentsAfterDelimiter restConfig \<and> commentDelimiters restConfig \<noteq> []
     \<and> \<not> isHtml ''Printer dead\<newline>Best regards\<newline>Alice''
     \<and> removeComments restConfig hst ''Printer dead\<newline>Best regards\<newline>Alice''
         = replace_all (truncated ''Printer dead\<newline>Best regards\<newline>Alice'' (commentDelimiters restConfig))
             newlineRe ''<br>''
     \<and> removeComments restConfig hst ''Printer dead\<newline>Best regards\<newline>Alice'' = ''Printer dead<br>''
     \<and> commentDelimiters no_delimiters = []
     \<and> removeComments no_delimiters hst ''a\<newline>b'' = ''a\<newline>b''
     \<and> isHtml ''< html>\<newline>''
     \<and> removeComments restConfig hst ''< html>\<newline>''
         = truncate_dom hst (commentDelimiters restConfig) ''< html>\<newline>''"
proof
  fix hst
  have a: "truncateCommentsAfterDelimiter restConfig" and b: "commentDelimiters restConfig \<noteq> []"
    by (simp_all add: restConfig_def)
  have c: "\<not> isHtml ''Printer dead\<newline>Best regards\<newline>Alice''"
    by code_simp
  have t: "replace_all (truncated ''Printer dead\<newline>Best regards\<newline>Alice'' (commentDelimiters restConfig))
             newlineRe ''<br>'' = ''Printer dead<br>''"
    by code_simp
  have e: "commentDelimiters no_delimiters = []"
    by (simp add: no_delimiters_def)
  have h: "isHtml ''< html>\<newline>''"
    by code_simp
  from a b c removeComments_text_mode [of restConfig "''Printer dead\<newline>Best regards\<newline>Alice''" hst]
  have "removeComments restConfig hst ''Printer dead\<newline>Best regards\<newline>Alice''
         = replace_all (truncated ''Printer dead\<newline>Best regards\<newline>Alice'' (commentDelimiters restConfig))
             newlineRe ''<br>''"
    by blast
  moreover from e removeComments_text_mode [of no_delimiters "''a\<newline>b''" hst]
  have "removeComments no_delimiters hst ''a\<newline>b'' = ''a\<newline>b''"
    by blast
  moreover from a b h removeComments_text_mode [of restConfig "''< html>\<newline>''" hst]
  have "removeComments restConfig hst ''< html>\<newline>''
         = truncate_dom hst (commentDelimiters restConfig) ''< html>\<newline>''"
    by blast
  ultimately show "truncateCommentsAfterDelimiter restConfig \<and> commentDelimiters restConfig \<noteq> []
     \<and> \<not> isHtml ''Printer dead\<newline>Best regards\<newline>Alice''
     \<and> removeComments restConfig hst ''Printer dead\<newline>Best regards\<newline>Alice''
         = replace_all (truncated ''Printer dead\<newline>Best regards\<newline>Alice'' (commentDelimiters restConfig))
             newlineRe ''<br>''
     \<and> removeComments restConfig hst ''Printer dead\<newline>Best regards\<newline>Alice'' = ''Printer dead<br>''
     \<and> commentDelimiters no_delimiters = []
     \<and> removeComments no_delimiters hst ''a\<newline>b'' = ''a\<newline>b''
     \<and> isHtml ''< html>\<newline>''
     \<and> removeComments restConfig hst ''< html>\<newline>''
         = truncate_dom hst (commentDelimiters restConfig) ''< html>\<newline>''"
    using a b c t e h by simp
qed

text \<open>
  C8, as stated, fails when truncation is switched on and the list of delimiters is empty:
  the body does not begin with \<open><html\<close> and no delimiter matches it, yet it comes back with
  its newline, not with \<open><br>\<close>, whatever the host is.
\<close>

theorem removeComments_counterexample:
  "\<forall>hst. truncateCommentsAfterDelimiter no_delimiters
     \<and> \<not> begins_html ''a\<newline>b''
     \<and> list_all (\<lambda>d. search ''a\<newline>b'' d = None) (commentDelimiters no_delimiters)
     \<and> removeComments no_delimiters hst ''a\<newline>b'' = ''a\<newline>b''
     \<and> replace_all ''a\<newline>b'' newlineRe ''<br>'' = ''a<br>b''
     \<and> ''a\<newline>b'' \<noteq> ''a<br>b''"
proof
  fix hst
  have "removeComments no_delimiters hst ''a\<newline>b'' = ''a\<newline>b''"
    by (simp add: removeComments_def no_delimiters_def restConfig_def)
  moreover have "replace_all ''a\<newline>b'' newlineRe ''<br>'' = ''a<br>b''"
    by code_simp
  moreover have "\<not> begins_html ''a\<newline>b''"
    by code_simp
  ultimately show "truncateCommentsAfterDelimiter no_delimiters
     \<and> \<not> begins_html ''a\<newline>b''
     \<and> list_all (\<lambda>d. search ''a\<newline>b'' d = None) (commentDelimiters no_delimiters)
     \<and> removeComments no_delimiters hst ''a\<newline>b'' = ''a\<newline>b''
     \<and> replace_all ''a\<newline>b'' newlineRe ''<br>'' = ''a<br>b''
     \<and> ''a\<newline>b'' \<noteq> ''a<br>b''"
    by (simp add: no_delimiters_def restConfig_def)
qed

subsection \<open>Dates in the body\<close>

text \<open>
  C5.  The claim: a date found in the body is stored in the canonical form, and the stored
  value is a valid ISO 8601 local time.  \<open>parseDate\<close> tests \<open>date !== 'Invalid Date'\<close> on a
  \<open>Date\<close> object, which always holds, so it never returns NaN for a date that is not one:
  for \<open>requiredOn: 99-99-2016 29:59\<close> the stored value has month 99, day 99 and hour 29.
\<close>

theorem parseDate_keeps_invalid_date:
  "parsePermittedAttributes restConfig (plain_host tdom)
       (plain_message\<lparr>body := ''requiredOn: 99-99-2016 29:59 ''\<rparr>)
     = [(''requiredOn'', ''2016-99-99T29:59:00'')]
   \<and> parseDate ''99-99-2016 29:59'' = Some ''2016-99-99T29:59:00''
   \<and> \<not> iso_local ''2016-99-99T29:59:00''"
proof -
  have "parsePermittedAttributes restConfig (plain_host tdom)
       (plain_message\<lparr>body := ''requiredOn: 99-99-2016 29:59 ''\<rparr>)
     = [(''requiredOn'', ''2016-99-99T29:59:00'')]"
    by code_simp
  moreover have "parseDate ''99-99-2016 29:59'' = Some ''2016-99-99T29:59:00''"
    by code_simp
  moreover have "\<not> iso_local ''2016-99-99T29:59:00''"
    by (simp add: num2_def code_unit_def)
  ultimately show ?thesis by simp
qed

subsection \<open>Timezone offsets\<close>

lemma offset_truthy: "offset_of_reply r = Some offset \<Longrightarrow> truthy offset"
  by (auto simp: offset_of_reply_def split: http_reply.splits rbody.splits if_splits
      Option.bind_splits)


lemma run_lookup:
  "run_task e (getTimezoneOffsetByPersonId cfg person m) =
     (if parseId ''PRS'' person = [] then ([], Some (Rejected, m))
      else ([Ev_request (dbQuery cfg (timezoneQuery person))],
            Some (case offset_of_reply (http e (dbQuery cfg (timezoneQuery person))) of
                    None \<Rightarrow> Rejected | Some offset \<Rightarrow> Resolved offset, m)))"
  by (simp add: getTimezoneOffsetByPersonId_def split: option.splits)

lemma run_update:
  "parsedFields m = Some flds \<Longrightarrow>
   run_task e (update_parsedFields hst tz m) =
     ([], Some (Resolved JUndef, m\<lparr>parsedFields :=
        Some (map (\<lambda>(k, v). (k, if is_date hst v then v @ to_string (or_else tz (JStr ''+00:00'')) else v)) flds)\<rparr>))"
  by (simp add: update_parsedFields_def updateDates_def)

lemma createIssue_post:
  assumes "getModelPath cfg ''Issues'' = Inr path" and "parsedFields m = Some flds"
  shows "\<exists>p. createIssue cfg hst iss = Inr p \<and>
     fst (run_task e (p m)) =
       (if parseId ''PRS'' (timezone_person cfg hst iss) = [] then []
        else [Ev_request (dbQuery cfg (timezoneQuery (timezone_person cfg hst iss)))])
       @ [Ev_request
            \<lparr> uri = path, verb = ''POST'',
              payload = JObj [(''ZIssue'', JObj (getIssueObj cfg hst iss
                 (Some (map (\<lambda>(k, v). (k, if is_date hst v then v @
                     (case (if parseId ''PRS'' (timezone_person cfg hst iss) = [] then None
                            else offset_of_reply (http e (dbQuery cfg (timezoneQuery (timezone_person cfg hst iss)))))
                      of None \<Rightarrow> ''+00:00'' | Some offset \<Rightarrow> to_string offset) else v)) flds))))] \<rparr>]"
proof -
  define person where "person = timezone_person cfg hst iss"
  define q where "q = dbQuery cfg (timezoneQuery person)"
  define chain where "chain = catch_p
                     (then_p (getTimezoneOffsetByPersonId cfg person)
                        (\<lambda>offset. update_parsedFields hst offset))
                     (update_parsedFields hst JUndef)"
  define stamp where "stamp = (\<lambda>tz. map (\<lambda>(k, v). (k, if is_date hst v then v @ tz else v)) flds)"
  have chain: "run_task e (chain m) =
     (if parseId ''PRS'' person = [] then
        ([], Some (Resolved JUndef, m\<lparr>parsedFields := Some (stamp ''+00:00'')\<rparr>))
      else (case offset_of_reply (http e q) of
              None \<Rightarrow> ([Ev_request q], Some (Resolved JUndef, m\<lparr>parsedFields := Some (stamp ''+00:00'')\<rparr>))
            | Some offset \<Rightarrow>
                ([Ev_request q], Some (Resolved JUndef, m\<lparr>parsedFields := Some (stamp (to_string offset))\<rparr>))))"
    unfolding chain_def run_catch run_then run_lookup q_def [symmetric]
    using assms(2)
    by (auto simp: run_update or_else_def stamp_def offset_truthy split: option.splits cong: if_cong)
  have c: "createIssue cfg hst iss = Inr (\<lambda>m.
                bind_task (chain m)
                  (\<lambda>(s, m'). Tick
                     (request
                        \<lparr> uri = path, verb = ''POST'',
                          payload = JObj [(''ZIssue'', JObj (getIssueObj cfg hst iss (parsedFields m')))] \<rparr>
                        (\<lambda>r. settle_with (created_id ''SRQ'' r)) m')))"
    using assms(1) by (simp add: createIssue_def chain_def person_def)
  have "fst (run_task e (bind_task (chain m)
                  (\<lambda>(s, m'). Tick
                     (request
                        \<lparr> uri = path, verb = ''POST'',
                          payload = JObj [(''ZIssue'', JObj (getIssueObj cfg hst iss (parsedFields m')))] \<rparr>
                        (\<lambda>r. settle_with (created_id ''SRQ'' r)) m')))) =
       (if parseId ''PRS'' person = [] then [] else [Ev_request q])
           @ [Ev_request
                \<lparr> uri = path, verb = ''POST'',
                  payload = JObj [(''ZIssue'', JObj (getIssueObj cfg hst iss
                     (Some (stamp (case (if parseId ''PRS'' person = [] then None else offset_of_reply (http e q))
                         of None \<Rightarrow> ''+00:00'' | Some offset \<Rightarrow> to_string offset)))))] \<rparr>]"
    unfolding run_bind chain
    by (simp split: option.splits)
  then show ?thesis
    unfolding c stamp_def q_def person_def by blast
qed

lemma issues_path: "getModelPath restConfig ''Issues'' = Inr ''http://192.168.102.105:16485/SM/9/rest/zIssues''"
  by (simp add: getModelPath_def restConfig_def show_nat.simps)

lemma alice_person: "timezone_person restConfig (plain_host tdom) alice_issue = JStr ''PRS000000000042''"
  by (simp add: timezone_person_def issue_fields_def alice_issue_def or_else_def field_of_def)

lemma alice_prs: "parseId ''PRS'' (JStr ''PRS000000000042'') = ''PRS000000000042''"
  by code_simp

lemma moscow_offset: "offset_of_reply (http moscow (dbQuery restConfig q)) = Some (JStr ''+03:00'')"
  by (simp add: moscow_def dbQuery_def offset_of_reply_def)

lemma dated_is_date:
  "\<not> is_date (plain_host tdom) ''1970-01-01T00:00:00''" "is_date (plain_host tdom) ''2016-12-25T10:30:00''"
  by (simp_all add: is_date_def plain_host_def)

lemma alice_obj:
  "getIssueObj restConfig (plain_host tdom) alice_issue
     (Some [(''requiredOn'', ''1970-01-01T00:00:00''), (''closedOn'', ''2016-12-25T10:30:00+03:00'')])
   = [(''authorId'', JStr ''PRS000000000042''),
                 (''statusId'', JStr ''STS000000000001''),
                 (''categoryId'', JStr ''CTG000000000101''),
                 (''priorityId'', JStr ''PRT000000000003''),
                 (''sourceId'', JStr ''SRC000000000003''),
                 (''requiredOn'', JStr ''1970-01-01T00:00:00''),
                 (''closedOn'', JStr ''2016-12-25T10:30:00+03:00''),
                 (''customerId'', JStr ''PRS000000000042''),
                 (''title'', JStr ''Printer broken''),
                 (''description'', JStr ''Printer dead''),
                 (''createdOn'', JStr ''2016-02-12T07:45:15.000Z''),
                 (''startedOn'', JStr ''2016-02-12T07:45:15.000Z''),
                 (''externalId'', JNum 6)]"
  by (simp add: getIssueObj_def assign_def issue_fields_def alice_issue_def restConfig_def
      plain_host_def or_else_def field_of_def)

text \<open>
  C9.  The claim: during issue creation every field of \<open>parsedFields\<close> whose value parses as
  a date gets the timezone offset appended (\<open>+00:00\<close> when the lookup fails), and the POST
  is issued whatever the lookup does.  \<open>createIssue_post\<close> shows this for every value on which
  \<open>Date.parse\<close> is truthy.  But \<open>updateDates\<close> tests \<open>if (Date.parse(v))\<close>, and the date
  \<open>1970-01-01T00:00:00\<close>, where \<open>Date.parse\<close> is 0, fails that test: with the offset
  \<open>+03:00\<close> resolved, the POST carries \<open>requiredOn\<close> without an offset next to \<open>closedOn\<close>
  with one.
\<close>

theorem createIssue_skips_epoch:
  "map_sum id (\<lambda>p. fst (run_task moscow (p dated_message)))
       (createIssue restConfig (plain_host tdom) alice_issue)
   = Inr [Ev_request (dbQuery restConfig (timezoneQuery (JStr ''PRS000000000042''))),
          Ev_request
            \<lparr> uri = ''http://192.168.102.105:16485/SM/9/rest/zIssues'', verb = ''POST'',
              payload = JObj [(''ZIssue'', JObj
                [(''authorId'', JStr ''PRS000000000042''),
                 (''statusId'', JStr ''STS000000000001''),
                 (''categoryId'', JStr ''CTG000000000101''),
                 (''priorityId'', JStr ''PRT000000000003''),
                 (''sourceId'', JStr ''SRC000000000003''),
                 (''requiredOn'', JStr ''1970-01-01T00:00:00''),
                 (''closedOn'', JStr ''2016-12-25T10:30:00+03:00''),
                 (''customerId'', JStr ''PRS000000000042''),
                 (''title'', JStr ''Printer broken''),
                 (''description'', JStr ''Printer dead''),
                 (''createdOn'', JStr ''2016-02-12T07:45:15.000Z''),
                 (''startedOn'', JStr ''2016-02-12T07:45:15.000Z''),
                 (''externalId'', JNum 6)])] \<rparr>]
   \<and> Date_parse (plain_host tdom) ''1970-01-01T00:00:00'' = Some 0
   \<and> parseDate ''01-01-1970 00:00'' = Some ''1970-01-01T00:00:00''"
proof -
  have pf: "parsedFields dated_message
              = Some [(''requiredOn'', ''1970-01-01T00:00:00''), (''closedOn'', ''2016-12-25T10:30:00'')]"
    by (simp add: dated_message_def)
  from createIssue_post [OF issues_path pf, of "plain_host tdom" alice_issue moscow]
  obtain p where p: "createIssue restConfig (plain_host tdom) alice_issue = Inr p"
    and r: "fst (run_task moscow (p dated_message))
        = [Ev_request (dbQuery restConfig (timezoneQuery (JStr ''PRS000000000042''))),
           Ev_request
            \<lparr> uri = ''http://192.168.102.105:16485/SM/9/rest/zIssues'', verb = ''POST'',
              payload = JObj [(''ZIssue'', JObj (getIssueObj restConfig (plain_host tdom) alice_issue
     (Some [(''requiredOn'', ''1970-01-01T00:00:00''), (''closedOn'', ''2016-12-25T10:30:00+03:00'')])))] \<rparr>]"
    by (auto simp: alice_person alice_prs moscow_offset dated_is_date)
  have "Date_parse (plain_host tdom) ''1970-01-01T00:00:00'' = Some 0"
    by (simp add: plain_host_def)
  moreover have "parseDate ''01-01-1970 00:00'' = Some ''1970-01-01T00:00:00''"
    by code_simp
  ultimately show ?thesis
    using p r by (simp add: alice_obj)
qed

subsection \<open>Dispatch of a message\<close>

lemma run_getMessageBody:
  "run_task e (getMessageBody cfg hst m) =
     ([Ev_fetch (uid m)],
      case imap_fetch e (uid m) of
        Fetch_error \<Rightarrow> Some (Rejected, m)
      | Fetched_empty \<Rightarrow> None
      | Fetched b atts \<Rightarrow>
          Some (Resolved (),
                m\<lparr>body := removeComments cfg hst b,
                  parsedFields := Some (parsePermittedAttributes cfg hst (m\<lparr>body := b\<rparr>)),
                  attachments := atts\<rparr>))"
  by (simp add: getMessageBody_def Let_def split: fetch_reply.splits)

lemma run_moveMessageFn:
  "run_task e (moveMessageFn box m) =
     ([Ev_move (uid m) box],
      Some (if imap_move e (uid m) box then Rejected else Resolved (JNum (int (uid m))), m))"
  by (simp add: moveMessageFn_def)

lemma run_saveMessageAttachments:
  "run_task e (saveMessageAttachments cfg ty i m) =
     (if joinAttachments cfg \<and> attachments m \<noteq> []
      then [Ev_uploads (attachment_uploads cfg ty i (attachments m))] else [],
      Some (Resolved (), m))"
  by (simp add: saveMessageAttachments_def)

lemma doCreateComment_fetch_error:
  assumes "doCreateComment cfg hst c boxName iss = Inr p" and "imap_fetch e (uid m) = Fetch_error"
  shows "run_task e (p m) = ([Ev_fetch (uid m)], Some (Resolved JUndef, m))"
  using assms
  by (auto simp: doCreateComment_def Let_def run_catch run_then run_getMessageBody
      split: sum.splits)

lemma doCreateIssue_fetch_error:
  assumes "doCreateIssue cfg hst c boxName m0 = Inr p" and "imap_fetch e (uid m) = Fetch_error"
    and "\<not> createSystemIssue cfg" and "getFailureBoxName c boxName = Inr failureBox"
  shows "fst (run_task e (p m)) = [Ev_fetch (uid m), Ev_move (uid m) failureBox]"
  using assms
  by (auto simp: doCreateIssue_def issue_chain_def run_catch run_then run_finally
      run_getMessageBody run_moveMessageFn split: sum.splits)

text \<open>
  C1.  The claim: a dispatch attempts exactly one move for its message on every path, a
  failed fetch of the body among them.  In \<open>doCreateComment\<close> a failed fetch rejects the
  promise of \<open>getMessageBody\<close>, the \<open>then\<close> is skipped and the last \<open>catch\<close> resolves: no
  move is issued, and the message, marked seen by the fetch of its header, stays in the
  mailbox.  \<open>doCreateIssue\<close> moves the message to the failure child on the same failure, as
  the comment in \<open>processBox\<close> says (\<open>on error, try to move the message to boxName.failure\<close>).
\<close>

theorem doCreateComment_drops_message:
  "map_sum id (\<lambda>p. run_task offline (p reply_message))
       (doCreateComment restConfig (plain_host tdom) server_config ''INBOX'' issue354)
     = Inr ([Ev_fetch 7], Some (Resolved JUndef, reply_message))
   \<and> map_sum id (\<lambda>p. fst (run_task offline (p reply_message)))
       (doCreateIssue restConfig (plain_host tdom) server_config ''INBOX'' reply_message)
     = Inr [Ev_fetch 7, Ev_move 7 (JStr ''INBOX/Unprocessed'')]"
proof -
  have f: "imap_fetch offline (uid reply_message) = Fetch_error"
    by (simp add: offline_def)
  have s: "getSuccessBoxName server_config ''INBOX'' = Inr (JStr ''INBOX/Processed'')"
    and b: "getFailureBoxName server_config ''INBOX'' = Inr (JStr ''INBOX/Unprocessed'')"
    by (simp_all add: getSuccessBoxName_def getFailureBoxName_def server_config_def)
  obtain p where p: "doCreateComment restConfig (plain_host tdom) server_config ''INBOX'' issue354 = Inr p"
    by (simp add: doCreateComment_def s b Let_def)
  have h: "header_first reply_message ''from'' = Inr (JStr ''Bob <bob@x>'')"
    by (simp add: header_first_def reply_message_def)
  obtain q where q: "doCreateIssue restConfig (plain_host tdom) server_config ''INBOX'' reply_message = Inr q"
    by (simp add: doCreateIssue_def s b h Let_def)
  have n: "\<not> createSystemIssue restConfig"
    by (simp add: restConfig_def)
  show ?thesis
    using doCreateComment_fetch_error [OF p f] doCreateIssue_fetch_error [OF q f n b] p q
    by (simp add: reply_message_def)
qed


lemma header_first_update [simp]:
  "header_first (m\<lparr>body := b, parsedFields := pf, attachments := a\<rparr>) n = header_first m n"
  by (simp add: header_first_def)

lemma assign_comment_fields:
  "assign [] (comment_fields cfg hst cmt) = comment_fields cfg hst cmt"
  by (simp add: assign_def comment_fields_def Let_def)

lemma run_postComment:
  assumes "getModelPath cfg ''Comments'' = Inr cpath"
  shows "\<exists>posted. postComment cfg hst (moveMessageFn sb) (moveMessageFn fb) cmt = Inr posted
     \<and> (\<forall>m. \<exists>rest r. run_task e (posted m) =
            (Ev_request \<lparr> uri = cpath, verb = ''POST'',
                payload = JObj [(''ZComment'', JObj (comment_fields cfg hst cmt))] \<rparr> # rest, r)
          \<and> (\<forall>ev \<in> set rest. \<not> is_request ev))"
  using assms
  by (auto simp: postComment_def createComment_def assign_comment_fields run_catch run_then
      run_moveMessageFn run_saveMessageAttachments
      split: option.splits settle.splits)



lemma run_then_stops:
  assumes "run_task e (p m) = (evs, r)" and "r = None \<or> (\<exists>m'. r = Some (Rejected, m'))"
  shows "\<exists>r'. run_task e (then_p p f m) = (evs, r') \<and> (r' = None \<or> (\<exists>m'. r' = Some (Rejected, m')))"
  using assms by (auto simp: run_then)

lemma run_comment_chain_rejected:
  assumes posted: "postComment cfg hst moveS moveF cmt = Inr posted"
    and lookup: "run_task e (lookup m) = (evs, Some (Rejected, m'))"
    and run: "run_task e (posted m') = (evs', r)"
  shows "fst (run_task e (comment_chain cfg hst moveS moveF cmt lookup m)) = evs @ evs'"
proof -
  define H where "H = callback (case postComment cfg hst moveS moveF cmt of
                         Inl e \<Rightarrow> Inl e
                       | Inr posted \<Rightarrow> Inr (finally_p posted (reject :: jv promise)))"
  have "\<exists>r'. run_task e (H m') = (evs', r') \<and> (r' = None \<or> (\<exists>m''. r' = Some (Rejected, m'')))"
    unfolding H_def posted using run
    by (auto simp: run_finally split: option.splits)
  then obtain r' where h: "run_task e (H m') = (evs', r')"
    and r': "r' = None \<or> (\<exists>m''. r' = Some (Rejected, m''))" by blast
  have c: "run_task e (catch_p lookup H m) = (evs @ evs', r')"
    using lookup h by (simp add: run_catch)
  define SPAM where "SPAM = (\<lambda>author.
                   catch_p
                     (then_p (with_message (checkSpamByPersonId cfg author)) (\<lambda>a. resolve a))
                     (finally_p moveF (reject :: jv promise)))"
  define ASSIGN where "ASSIGN = (\<lambda>author. (resolve (cmt\<lparr>authorId := author\<rparr>) :: comment promise))"
  define POST where "POST = (\<lambda>cmt'. callback
             (case postComment cfg hst moveS moveF cmt' of
                Inl e \<Rightarrow> Inl e
              | Inr posted \<Rightarrow> Inr (finally_p posted (resolve JUndef))))"
  from run_then_stops [where p = "catch_p lookup H" and m = m and f = SPAM, OF c r']
  obtain r1 where c1: "run_task e (then_p (catch_p lookup H) SPAM m) = (evs @ evs', r1)"
    and r1: "r1 = None \<or> (\<exists>m'. r1 = Some (Rejected, m'))" by blast
  from run_then_stops [where p = "then_p (catch_p lookup H) SPAM" and m = m and f = ASSIGN, OF c1 r1]
  obtain r2 where c2: "run_task e (then_p (then_p (catch_p lookup H) SPAM) ASSIGN m) = (evs @ evs', r2)"
    and r2: "r2 = None \<or> (\<exists>m'. r2 = Some (Rejected, m'))" by blast
  from run_then_stops [where p = "then_p (then_p (catch_p lookup H) SPAM) ASSIGN" and m = m and f = POST,
      OF c2 r2]
  obtain r3 where c3: "run_task e (then_p (then_p (then_p (catch_p lookup H) SPAM) ASSIGN) POST m)
                         = (evs @ evs', r3)"
    and r3: "r3 = None \<or> (\<exists>m'. r3 = Some (Rejected, m'))" by blast
  show ?thesis
    unfolding comment_chain_def H_def [symmetric] SPAM_def [symmetric] ASSIGN_def [symmetric]
      POST_def [symmetric]
    using c3 r3 by (auto simp: run_finally)
qed

lemma persons_path: "getModelPath restConfig ''Persons'' = Inr ''http://192.168.102.105:16485/SM/9/rest/zPersons''"
  by (simp add: getModelPath_def restConfig_def show_nat.simps)

lemma comments_path: "getModelPath restConfig ''Comments'' = Inr ''http://192.168.102.105:16485/SM/9/rest/zComments''"
  by (simp add: getModelPath_def restConfig_def show_nat.simps)

lemma bob_address: "parseEmailAddress (JStr ''Bob <bob@x>'') = Inr ''bob@x''"
  by code_simp

lemma reply_body: "removeComments restConfig (plain_host tdom) ''please check\<newline>//-----\<newline>quoted prior email''
   = ''please check<br>''"
  by code_simp

lemma reply_fields: "parsePermittedAttributes restConfig (plain_host tdom)
    (reply_message\<lparr>body := ''please check\<newline>//-----\<newline>quoted prior email''\<rparr>) = []"
  by code_simp

lemma comment_id: "parseId ''CMT'' (JStr ''Created CMT000000000077'') = ''CMT000000000077''"
  by code_simp

lemma inbox_boxes:
  "getSuccessBoxName server_config ''INBOX'' = Inr (JStr ''INBOX/Processed'')"
  "getFailureBoxName server_config ''INBOX'' = Inr (JStr ''INBOX/Unprocessed'')"
  by (simp_all add: getSuccessBoxName_def getFailureBoxName_def server_config_def)

lemma unknown_sender_simps:
  "imap_fetch unknown_sender u = Fetched ''please check\<newline>//-----\<newline>quoted prior email'' []"
  "imap_move unknown_sender u b = False"
  "person_of_reply (http unknown_sender \<lparr> uri = x, verb = ''GET'', payload = y \<rparr>) = None"
  "created_id ''CMT'' (http unknown_sender \<lparr> uri = x, verb = ''POST'', payload = y \<rparr>)
     = Some (Resolved (JStr ''CMT000000000077''))"
  by (simp_all add: unknown_sender_def person_of_reply_def created_id_def body_value_def comment_id)

text \<open>
  C3, as amended.  In the comment flow, when the body is fetched and the lookup of the
  sender rejects, the comment object that \<open>doCreateComment\<close> builds has \<open>authorId = null\<close>,
  and \<open>createComment\<close> replaces it by \<open>defaultIssueAttrs.authorId\<close>
  (\<open>comment.authorId || defaults.authorId\<close>): the one POST to the Comments endpoint carries
  the system author, the truncated body and the id of the issue, and no other request
  follows it.
\<close>

theorem doCreateComment_unknown_sender:
  assumes box: "getSuccessBoxName c boxName = Inr sb" "getFailureBoxName c boxName = Inr fb"
    and fetch: "imap_fetch e (uid m) = Fetched b atts"
    and sender: "header_first m ''from'' = Inr email"
    and iss: "js_get iss ''Id'' = Some iid"
    and ppath: "getModelPath cfg ''Persons'' = Inr ppath"
    and addr: "parseEmailAddress email = Inr address" "address \<noteq> []"
    and notfound: "person_of_reply (http e \<lparr> uri = ppath @ ''?email='' @ address, verb = ''GET'',
                                             payload = JUndef \<rparr>) = None"
    and cpath: "getModelPath cfg ''Comments'' = Inr cpath"
  shows "\<exists>p rest. doCreateComment cfg hst c boxName iss = Inr p
     \<and> fst (run_task e (p m)) =
         [Ev_fetch (uid m),
          Ev_request \<lparr> uri = ppath @ ''?email='' @ address, verb = ''GET'', payload = JUndef \<rparr>,
          Ev_request \<lparr> uri = cpath, verb = ''POST'',
            payload = JObj [(''ZComment'', JObj
              [(''authorId'', field_of (defaultIssueAttrs cfg) ''authorId''),
               (''comment'', JStr (removeComments cfg hst b)),
               (''createdOn'', now hst),
               (''foreignKey'', iid),
               (''isPublic'', JBool True)])] \<rparr>] @ rest
     \<and> (\<forall>ev \<in> set rest. \<not> is_request ev)"
proof -
  define cmt where "cmt = \<lparr> authorId = JNull, issueId = iid,
                             comment_description = removeComments cfg hst b \<rparr>"
  define m' where "m' = m\<lparr>body := removeComments cfg hst b,
                  parsedFields := Some (parsePermittedAttributes cfg hst (m\<lparr>body := b\<rparr>)),
                  attachments := atts\<rparr>"
  define lookup :: "jv promise" where "lookup = request
                      \<lparr> uri = ppath @ ''?email='' @ address, verb = ''GET'', payload = JUndef \<rparr>
                      (\<lambda>r. case person_of_reply r of None \<Rightarrow> reject | Some found \<Rightarrow> resolve found)"
  from run_postComment [OF cpath, of hst sb fb cmt e]
  obtain posted where posted: "postComment cfg hst (moveMessageFn sb) (moveMessageFn fb) cmt = Inr posted"
    and run: "\<And>m. \<exists>rest r. run_task e (posted m) =
            (Ev_request \<lparr> uri = cpath, verb = ''POST'',
                payload = JObj [(''ZComment'', JObj (comment_fields cfg hst cmt))] \<rparr> # rest, r)
          \<and> (\<forall>ev \<in> set rest. \<not> is_request ev)"
    by blast
  from run [of m'] obtain rest r where rest: "run_task e (posted m') =
            (Ev_request \<lparr> uri = cpath, verb = ''POST'',
                payload = JObj [(''ZComment'', JObj (comment_fields cfg hst cmt))] \<rparr> # rest, r)"
    and nr: "\<forall>ev \<in> set rest. \<not> is_request ev"
    by blast
  have fields: "comment_fields cfg hst cmt =
              [(''authorId'', field_of (defaultIssueAttrs cfg) ''authorId''),
               (''comment'', JStr (removeComments cfg hst b)),
               (''createdOn'', now hst),
               (''foreignKey'', iid),
               (''isPublic'', JBool True)]"
    by (simp add: comment_fields_def cmt_def or_else_def Let_def)
  have gp: "getPersonIdByEmail cfg email = Inr (Some lookup)"
    using ppath addr by (simp add: getPersonIdByEmail_def lookup_def)
  have rl: "run_task e (lookup m') =
              ([Ev_request \<lparr> uri = ppath @ ''?email='' @ address, verb = ''GET'', payload = JUndef \<rparr>],
               Some (Rejected, m'))"
    using notfound by (simp add: lookup_def)
  have cb: "comment_callback cfg hst (moveMessageFn sb) (moveMessageFn fb) iss m'
              = Inr (comment_chain cfg hst (moveMessageFn sb) (moveMessageFn fb) cmt lookup)"
    using sender iss gp by (simp add: comment_callback_def m'_def cmt_def)
  have chain: "fst (run_task e (comment_chain cfg hst (moveMessageFn sb) (moveMessageFn fb) cmt lookup m'))
          = [Ev_request \<lparr> uri = ppath @ ''?email='' @ address, verb = ''GET'', payload = JUndef \<rparr>]
            @ Ev_request \<lparr> uri = cpath, verb = ''POST'',
                payload = JObj [(''ZComment'', JObj (comment_fields cfg hst cmt))] \<rparr> # rest"
    by (rule run_comment_chain_rejected [where lookup = lookup and m = m' and posted = posted,
          OF posted rl rest])
  have gm: "run_task e (getMessageBody cfg hst m) = ([Ev_fetch (uid m)], Some (Resolved (), m'))"
    using fetch by (simp add: run_getMessageBody m'_def)
  obtain p where p: "doCreateComment cfg hst c boxName iss = Inr p"
    and pd: "p = catch_p
           (then_p (getMessageBody cfg hst)
              (\<lambda>_. with_message (\<lambda>message. callback
                 (comment_callback cfg hst (moveMessageFn sb) (moveMessageFn fb) iss message))))
           (resolve JUndef)"
    using box by (simp add: doCreateComment_def Let_def)
  obtain evs r' where cr: "run_task e (comment_chain cfg hst (moveMessageFn sb) (moveMessageFn fb) cmt lookup m') = (evs, r')"
    by (cases "run_task e (comment_chain cfg hst (moveMessageFn sb) (moveMessageFn fb) cmt lookup m')")
  have "fst (run_task e (p m)) = Ev_fetch (uid m) # evs"
    unfolding pd
    by (auto simp: run_catch run_then gm cb cr split: option.splits settle.splits prod.splits)
  with chain cr have "fst (run_task e (p m)) =
         [Ev_fetch (uid m),
          Ev_request \<lparr> uri = ppath @ ''?email='' @ address, verb = ''GET'', payload = JUndef \<rparr>,
          Ev_request \<lparr> uri = cpath, verb = ''POST'',
            payload = JObj [(''ZComment'', JObj (comment_fields cfg hst cmt))] \<rparr>] @ rest"
    by simp
  with p nr show ?thesis
    unfolding fields by blast
qed


theorem doCreateComment_unknown_sender_witness:
  "\<forall>tdom. getSuccessBoxName server_config ''INBOX'' = Inr (JStr ''INBOX/Processed'')
   \<and> getFailureBoxName server_config ''INBOX'' = Inr (JStr ''INBOX/Unprocessed'')
   \<and> imap_fetch unknown_sender (uid reply_message)
         = Fetched ''please check\<newline>//-----\<newline>quoted prior email'' []
   \<and> header_first reply_message ''from'' = Inr (JStr ''Bob <bob@x>'')
   \<and> js_get issue354 ''Id'' = Some (JStr ''SRQ000000000354'')
   \<and> getModelPath restConfig ''Persons'' = Inr ''http://192.168.102.105:16485/SM/9/rest/zPersons''
   \<and> parseEmailAddress (JStr ''Bob <bob@x>'') = Inr ''bob@x''
   \<and> person_of_reply (http unknown_sender
         \<lparr> uri = ''http://192.168.102.105:16485/SM/9/rest/zPersons'' @ ''?email='' @ ''bob@x'',
           verb = ''GET'', payload = JUndef \<rparr>) = None
   \<and> getModelPath restConfig ''Comments'' = Inr ''http://192.168.102.105:16485/SM/9/rest/zComments''
   \<and> (\<exists>p rest. doCreateComment restConfig (plain_host tdom) server_config ''INBOX'' issue354 = Inr p
     \<and> fst (run_task unknown_sender (p reply_message)) =
         [Ev_fetch (uid reply_message),
          Ev_request \<lparr> uri = ''http://192.168.102.105:16485/SM/9/rest/zPersons'' @ ''?email='' @ ''bob@x'',
                       verb = ''GET'', payload = JUndef \<rparr>,
          Ev_request \<lparr> uri = ''http://192.168.102.105:16485/SM/9/rest/zComments'', verb = ''POST'',
            payload = JObj [(''ZComment'', JObj
              [(''authorId'', field_of (defaultIssueAttrs restConfig) ''authorId''),
               (''comment'', JStr (removeComments restConfig (plain_host tdom)
                                     ''please check\<newline>//-----\<newline>quoted prior email'')),
               (''createdOn'', now (plain_host tdom)),
               (''foreignKey'', JStr ''SRQ000000000354''),
               (''isPublic'', JBool True)])] \<rparr>] @ rest
     \<and> (\<forall>ev \<in> set rest. \<not> is_request ev))"
  (is "\<forall>tdom. ?P tdom")
proof
  fix tdom
  have h: "header_first reply_message ''from'' = Inr (JStr ''Bob <bob@x>'')"
    by (simp add: header_first_def reply_message_def)
  have i: "js_get issue354 ''Id'' = Some (JStr ''SRQ000000000354'')"
    by (simp add: issue354_def)
  have a: "''bob@x'' \<noteq> []"
    by simp
  have f: "imap_fetch unknown_sender (uid reply_message)
         = Fetched ''please check\<newline>//-----\<newline>quoted prior email'' []"
    by (rule unknown_sender_simps)
  have n: "person_of_reply (http unknown_sender
         \<lparr> uri = ''http://192.168.102.105:16485/SM/9/rest/zPersons'' @ ''?email='' @ ''bob@x'',
           verb = ''GET'', payload = JUndef \<rparr>) = None"
    by (rule unknown_sender_simps)
  from doCreateComment_unknown_sender [OF inbox_boxes f h i persons_path bob_address a n comments_path,
      of "plain_host tdom"]
  show "?P tdom"
    using inbox_boxes f h i persons_path bob_address n comments_path by blast
qed


text \<open>
  C3, as stated, fails on scenario S2 of the specification: the POST carries
  \<open>authorId = PRS000000000001\<close>, the configured system author, and not \<open>null\<close>.
\<close>

theorem anonymous_comment_counterexample:
  "\<forall>tdom. map_sum id (\<lambda>p. fst (run_task unknown_sender (p reply_message)))
       (doCreateComment restConfig (plain_host tdom) server_config ''INBOX'' issue354)
   = Inr [Ev_fetch 7,
          Ev_request \<lparr> uri = ''http://192.168.102.105:16485/SM/9/rest/zPersons?email=bob@x'',
                       verb = ''GET'', payload = JUndef \<rparr>,
          Ev_request \<lparr> uri = ''http://192.168.102.105:16485/SM/9/rest/zComments'', verb = ''POST'',
            payload = JObj [(''ZComment'', JObj
              [(''authorId'', JStr ''PRS000000000001''),
               (''comment'', JStr ''please check<br>''),
               (''createdOn'', JStr ''2016-02-12T07:45:15.000Z''),
               (''foreignKey'', JStr ''SRQ000000000354''),
               (''isPublic'', JBool True)])] \<rparr>,
          Ev_move 7 (JStr ''INBOX/Processed'')]"
  (is "\<forall>tdom. ?P tdom")
proof
  fix tdom
  have h: "header_first reply_message ''from'' = Inr (JStr ''Bob <bob@x>'')"
    by (simp add: header_first_def reply_message_def)
  have u: "uid reply_message = 7" "attachments reply_message = []"
    by (simp_all add: reply_message_def)
  have f: "comment_fields restConfig (plain_host tdom)
             \<lparr>authorId = JNull, issueId = JStr ''SRQ000000000354'',
                comment_description = ''please check<br>''\<rparr>
           = [(''authorId'', JStr ''PRS000000000001''),
               (''comment'', JStr ''please check<br>''),
               (''createdOn'', JStr ''2016-02-12T07:45:15.000Z''),
               (''foreignKey'', JStr ''SRQ000000000354''),
               (''isPublic'', JBool True)]"
    by (simp add: comment_fields_def restConfig_def plain_host_def or_else_def field_of_def)
  show "?P tdom"
    by (simp add: doCreateComment_def inbox_boxes Let_def run_catch run_then run_finally
        run_getMessageBody unknown_sender_simps reply_body reply_fields u h
        comment_callback_def issue354_def getPersonIdByEmail_def persons_path bob_address
        comment_chain_def postComment_def createComment_def comments_path assign_comment_fields f
        run_saveMessageAttachments run_moveMessageFn)
qed

subsection \<open>The sender's address\<close>






lemma gt_not_terminator [simp]: "\<not> is_line_terminator CHR ''>''"
  by (simp add: is_line_terminator_def code_unit_def)














subsection \<open>The messages of one mailbox\<close>





























end
